theory Spec2Isabelle
  imports Main "HOL-Library.Sublist"
begin

section \<open>JavaScript values used by the handlers\<close>

text \<open>
  The handlers read fields of JSON bodies, headers and environment variables. A field
  that is absent reads as \<^verbatim>\<open>undefined\<close>; the model writes such a field as
  \<open>string option\<close>, with \<open>None\<close> for \<^verbatim>\<open>undefined\<close>. The model covers fields
  whose value, when present, is a JSON string. Database reads and writes are taken to
  succeed; every call to another service (Box, the extraction gateway, Camunda, n8n) has
  its outcome as an input, failure included.
\<close>

type_synonym jsstr = "string option"

text \<open>Truthiness of a string-or-undefined value: \<^verbatim>\<open>undefined\<close> and \<^verbatim>\<open>''\<close> are falsy.\<close>

definition truthy :: "jsstr \<Rightarrow> bool" where
  "truthy v = (case v of None \<Rightarrow> False | Some s \<Rightarrow> s \<noteq> [])"

text \<open>\<^verbatim>\<open>a || b\<close> on such values.\<close>

definition js_or :: "jsstr \<Rightarrow> jsstr \<Rightarrow> jsstr" where
  "js_or a b = (if truthy a then a else b)"

text \<open>A value inside a template literal: \<^verbatim>\<open>`${v}`\<close>.\<close>

definition template :: "jsstr \<Rightarrow> string" where
  "template v = (case v of None \<Rightarrow> ''undefined'' | Some s \<Rightarrow> s)"

text \<open>
  \<^verbatim>\<open>obj[key]\<close> on an object literal. The literal's own properties come first; a key
  that is not an own property is looked up on \<^verbatim>\<open>Object.prototype\<close>, whose
  properties every object literal inherits; any other key reads as \<^verbatim>\<open>undefined\<close>.
\<close>

definition OBJECT_PROTOTYPE_KEYS :: "string list" where
  "OBJECT_PROTOTYPE_KEYS =
    [''constructor'', ''__defineGetter__'', ''__defineSetter__'', ''hasOwnProperty'',
     ''__lookupGetter__'', ''__lookupSetter__'', ''isPrototypeOf'',
     ''propertyIsEnumerable'', ''toString'', ''valueOf'', ''__proto__'',
     ''toLocaleString'']"

datatype 'a js_prop = Own 'a | Inherited string | Undefined

definition js_get :: "(string \<times> 'a) list \<Rightarrow> string \<Rightarrow> 'a js_prop" where
  "js_get obj k =
    (case map_of obj k of
       Some v \<Rightarrow> Own v
     | None \<Rightarrow> if k \<in> set OBJECT_PROTOTYPE_KEYS then Inherited k else Undefined)"

text \<open>
  An inherited property inside a template literal. \<^verbatim>\<open>__proto__\<close> reads as the
  prototype object itself; the others are built-in functions, printed by the runtime as
  \<^verbatim>\<open>function NAME() { [native code] }\<close> (\<^verbatim>\<open>constructor\<close> is the function
  \<^verbatim>\<open>Object\<close>).
\<close>

definition inherited_template :: "string \<Rightarrow> string" where
  "inherited_template k =
    (if k = ''__proto__'' then ''[object Object]''
     else ''function '' @ (if k = ''constructor'' then ''Object'' else k)
          @ ''() { [native code] }'')"

text \<open>\<^verbatim>\<open>String.prototype.toLowerCase\<close> on ASCII text.\<close>

definition lower_char :: "char \<Rightarrow> char" where
  "lower_char c =
    (let n = (of_char c :: nat) in if 65 \<le> n \<and> n \<le> 90 then char_of (n + 32) else c)"

definition toLowerCase :: "string \<Rightarrow> string" where
  "toLowerCase s = map lower_char s"

definition upper_char :: "char \<Rightarrow> char" where
  "upper_char c =
    (let n = (of_char c :: nat) in if 97 \<le> n \<and> n \<le> 122 then char_of (n - 32) else c)"

definition toUpperCase :: "string \<Rightarrow> string" where
  "toUpperCase s = map upper_char s"

text \<open>\<^verbatim>\<open>String.prototype.includes\<close>: the needle occurs somewhere in the text.\<close>

fun includes_str :: "string \<Rightarrow> string \<Rightarrow> bool" where
  "includes_str [] needle = (needle = [])"
| "includes_str (c # cs) needle = (prefix needle (c # cs) \<or> includes_str cs needle)"

text \<open>A non-negative integer inside a template literal: its decimal digits.\<close>

definition digit_char :: "nat \<Rightarrow> char" where
  "digit_char d = char_of (48 + d)"

function decimal :: "nat \<Rightarrow> string" where
  "decimal n = (if n < 10 then [digit_char n] else decimal (n div 10) @ [digit_char (n mod 10)])"
  by pat_completeness auto
termination
  by (relation "measure id") auto

declare decimal.simps [simp del]

section \<open>The webhook proxy\<close>

text \<open>The table \<^verbatim>\<open>TRIGGER_ROUTES\<close>: Box event trigger to n8n webhook path.\<close>

definition TRIGGER_ROUTES :: "(string \<times> string) list" where
  "TRIGGER_ROUTES =
    [(''FILE.UPLOADED'', ''box-file-upload''),
     (''METADATA_INSTANCE.CREATED'', ''box-metadata''),
     (''METADATA_INSTANCE.UPDATED'', ''box-metadata''),
     (''METADATA_INSTANCE.DELETED'', ''box-metadata''),
     (''TASK_ASSIGNMENT.CREATED'', ''box-tasks''),
     (''TASK_ASSIGNMENT.UPDATED'', ''box-tasks''),
     (''SIGN_REQUEST.COMPLETED'', ''box-sign''),
     (''SIGN_REQUEST.DECLINED'', ''box-sign''),
     (''SIGN_REQUEST.EXPIRED'', ''box-sign''),
     (''COLLABORATION.CREATED'', ''box-collab''),
     (''COLLABORATION.REMOVED'', ''box-collab'')]"

text \<open>
  The dispatcher mounted on \<^verbatim>\<open>POST /webhook/box-file-upload\<close>. It takes the request URL
  and the body's \<^verbatim>\<open>trigger\<close> field and returns the URL the generic proxy then sees.
  The three conjuncts of the source's condition are: the trigger is truthy, the table
  lookup is truthy, and the lookup is not the string \<^verbatim>\<open>box-file-upload\<close>.
\<close>

definition box_file_upload_dispatcher :: "string \<Rightarrow> jsstr \<Rightarrow> string" where
  "box_file_upload_dispatcher url trigger =
    (case trigger of
       None \<Rightarrow> url
     | Some t \<Rightarrow>
         if t = [] then url
         else (case js_get TRIGGER_ROUTES t of
                 Undefined \<Rightarrow> url
               | Own p \<Rightarrow>
                   if p \<noteq> [] \<and> p \<noteq> ''box-file-upload'' then ''/webhook/'' @ p else url
               | Inherited k \<Rightarrow> ''/webhook/'' @ inherited_template k))"

section \<open>The extraction gateway\<close>

subsection \<open>The table of extraction configurations\<close>

text \<open>
  One entry of a configuration's \<^verbatim>\<open>fields\<close> array: \<^verbatim>\<open>{ key, type, description }\<close>.
\<close>

datatype extraction_field =
  Field (f_key: string) (f_type: string) (f_description: string)

definition FNOL_FIELDS :: "extraction_field list" where
  "FNOL_FIELDS =
    [Field ''claimantName'' ''string'' ''Full name of the claimant'',
     Field ''dateOfLoss'' ''date'' ''Date when the incident occurred'',
     Field ''timeOfLoss'' ''string'' ''Time when the incident occurred'',
     Field ''incidentLocation'' ''string'' ''Full address where incident occurred'',
     Field ''incidentDescription'' ''string'' ''Detailed description of what happened'',
     Field ''lossType'' ''string'' ''Type of loss (auto collision, property damage, etc.)'',
     Field ''policyNumber'' ''string'' ''Insurance policy number'',
     Field ''contactPhone'' ''string'' ''Claimant phone number'',
     Field ''contactEmail'' ''string'' ''Claimant email address'',
     Field ''injuriesReported'' ''string'' ''Were injuries reported (yes/no)'',
     Field ''injuryDescription'' ''string'' ''Description of injuries if any'',
     Field ''policeReportFiled'' ''string'' ''Was police report filed (yes/no)'',
     Field ''policeReportNumber'' ''string'' ''Police report number if filed'',
     Field ''otherParties'' ''string'' ''Names of other parties involved'',
     Field ''witnesses'' ''string'' ''Names of witnesses'',
     Field ''estimatedDamage'' ''string'' ''Estimated damage amount in dollars'',
     Field ''vehicleYear'' ''string'' ''Vehicle year'',
     Field ''vehicleMake'' ''string'' ''Vehicle make'',
     Field ''vehicleModel'' ''string'' ''Vehicle model'',
     Field ''vehicleVIN'' ''string'' ''Vehicle identification number'']"

definition MEDICAL_FIELDS :: "extraction_field list" where
  "MEDICAL_FIELDS =
    [Field ''patientName'' ''string'' ''Patient full name'',
     Field ''dateOfService'' ''date'' ''Date of medical service'',
     Field ''providerName'' ''string'' ''Doctor or provider name'',
     Field ''facilityName'' ''string'' ''Hospital or clinic name'',
     Field ''providerType'' ''string'' ''Type of provider (ER, specialist, etc.)'',
     Field ''chiefComplaint'' ''string'' ''Primary reason for visit'',
     Field ''diagnoses'' ''string'' ''Medical diagnoses'',
     Field ''icd10Codes'' ''string'' ''ICD-10 diagnosis codes'',
     Field ''treatmentProvided'' ''string'' ''Treatment provided'',
     Field ''procedures'' ''string'' ''Procedures performed'',
     Field ''cptCodes'' ''string'' ''CPT procedure codes'',
     Field ''medications'' ''string'' ''Medications prescribed'',
     Field ''followUpInstructions'' ''string'' ''Follow-up care instructions'',
     Field ''workRestrictions'' ''string'' ''Work restrictions if any'',
     Field ''prognosis'' ''string'' ''Expected recovery prognosis'',
     Field ''totalCharges'' ''string'' ''Total charges in dollars'',
     Field ''accidentRelated'' ''string'' ''Is treatment accident related (yes/no)'']"

definition ESTIMATE_FIELDS :: "extraction_field list" where
  "ESTIMATE_FIELDS =
    [Field ''estimateProvider'' ''string'' ''Name of repair shop'',
     Field ''estimateDate'' ''date'' ''Date estimate was created'',
     Field ''estimateNumber'' ''string'' ''Estimate reference number'',
     Field ''vehicleInfo'' ''string'' ''Vehicle year/make/model'',
     Field ''lineItems'' ''string'' ''Description of repair items'',
     Field ''partsTotal'' ''string'' ''Total cost of parts'',
     Field ''laborTotal'' ''string'' ''Total labor cost'',
     Field ''laborHours'' ''string'' ''Total labor hours'',
     Field ''laborRate'' ''string'' ''Labor rate per hour'',
     Field ''materialsTotal'' ''string'' ''Materials and supplies total'',
     Field ''subletTotal'' ''string'' ''Sublet work total'',
     Field ''tax'' ''string'' ''Tax amount'',
     Field ''grandTotal'' ''string'' ''Grand total amount'',
     Field ''repairVsReplace'' ''string'' ''Repair or replace decision'',
     Field ''isSupplemental'' ''string'' ''Is this a supplemental estimate (yes/no)'']"

definition POLICE_FIELDS :: "extraction_field list" where
  "POLICE_FIELDS =
    [Field ''reportNumber'' ''string'' ''Police report number'',
     Field ''reportDate'' ''date'' ''Date report was filed'',
     Field ''incidentDateTime'' ''string'' ''Date and time of incident'',
     Field ''incidentLocation'' ''string'' ''Full address of incident'',
     Field ''officerName'' ''string'' ''Reporting officer name'',
     Field ''badgeNumber'' ''string'' ''Officer badge number'',
     Field ''agencyName'' ''string'' ''Police department name'',
     Field ''involvedParties'' ''string'' ''Names of all involved parties'',
     Field ''vehicles'' ''string'' ''Vehicle information'',
     Field ''narrative'' ''string'' ''Description of what happened'',
     Field ''citations'' ''string'' ''Citations issued'',
     Field ''faultDetermination'' ''string'' ''Fault determination if stated'',
     Field ''injuries'' ''string'' ''Injuries reported'',
     Field ''witnesses'' ''string'' ''Witness names'',
     Field ''damageDescription'' ''string'' ''Description of damages'',
     Field ''weatherConditions'' ''string'' ''Weather conditions'',
     Field ''roadConditions'' ''string'' ''Road conditions'',
     Field ''diagramIncluded'' ''string'' ''Diagram included (yes/no)'']"

definition INVOICE_FIELDS :: "extraction_field list" where
  "INVOICE_FIELDS =
    [Field ''vendorName'' ''string'' ''Vendor company name'',
     Field ''vendorAddress'' ''string'' ''Vendor address'',
     Field ''invoiceNumber'' ''string'' ''Invoice number'',
     Field ''invoiceDate'' ''date'' ''Invoice date'',
     Field ''dueDate'' ''date'' ''Payment due date'',
     Field ''serviceDescription'' ''string'' ''Description of services'',
     Field ''lineItems'' ''string'' ''Line items and amounts'',
     Field ''subtotal'' ''string'' ''Subtotal amount'',
     Field ''tax'' ''string'' ''Tax amount'',
     Field ''totalAmount'' ''string'' ''Total invoice amount'',
     Field ''paymentTerms'' ''string'' ''Payment terms'',
     Field ''claimReference'' ''string'' ''Related claim number'']"

definition INSURANCE_CLAIM_FIELDS :: "extraction_field list" where
  "INSURANCE_CLAIM_FIELDS =
    [Field ''claimantName'' ''string'' ''Full name of the claimant'',
     Field ''policyNumber'' ''string'' ''Insurance policy number'',
     Field ''claimType'' ''string'' ''Type of insurance claim'',
     Field ''dateOfIncident'' ''date'' ''Date when the incident occurred'',
     Field ''incidentLocation'' ''string'' ''Location where incident occurred'',
     Field ''incidentDescription'' ''string'' ''Detailed description of the incident'',
     Field ''estimatedAmount'' ''string'' ''Estimated claim amount in dollars'',
     Field ''contactPhone'' ''string'' ''Claimant phone number'',
     Field ''contactEmail'' ''string'' ''Claimant email address'',
     Field ''contactAddress'' ''string'' ''Claimant address'',
     Field ''injuriesReported'' ''string'' ''Description of injuries if any'',
     Field ''propertyDamage'' ''string'' ''Description of property damage'',
     Field ''thirdParties'' ''string'' ''Third parties involved'',
     Field ''witnesses'' ''string'' ''Witness names and contact info'',
     Field ''policeReportFiled'' ''string'' ''Police/fire report filed (yes/no)'',
     Field ''reportNumber'' ''string'' ''Police/fire report number'',
     Field ''supportingDocuments'' ''string'' ''List of supporting documents'',
     Field ''claimStatus'' ''string'' ''Current status of the claim'']"

text \<open>
  An entry of \<^verbatim>\<open>EXTRACTION_CONFIGS\<close>. The \<^verbatim>\<open>prompt\<close> text of an entry is read by no
  route and is left out.
\<close>

datatype extraction_config =
  Config (cfg_name: string) (cfg_fields: "extraction_field list")

definition EXTRACTION_CONFIGS :: "(string \<times> extraction_config) list" where
  "EXTRACTION_CONFIGS =
    [(''fnol'', Config ''FNOL_Extraction'' FNOL_FIELDS),
     (''medical'', Config ''Medical_Record_Extraction'' MEDICAL_FIELDS),
     (''estimate'', Config ''Repair_Estimate_Extraction'' ESTIMATE_FIELDS),
     (''police'', Config ''Police_Report_Extraction'' POLICE_FIELDS),
     (''invoice'', Config ''Vendor_Invoice_Extraction'' INVOICE_FIELDS),
     (''insurance_claim'', Config ''Insurance_Claim_Extraction'' INSURANCE_CLAIM_FIELDS)]"

subsection \<open>The route POST /extract\<close>

text \<open>
  The body sent to the vendor's \<^verbatim>\<open>/ai/extract_structured\<close> endpoint: the file, and one
  entry per configured field. A field of type \<^verbatim>\<open>date\<close> is asked for as a string, and
  the prompt is built from the lower-cased description.
\<close>

datatype vendor_field =
  VendorField (vf_key: string) (vf_type: string) (vf_description: string) (vf_prompt: string)

datatype extract_structured_request =
  ExtractStructured (items_file_id: string) (request_fields: "vendor_field list")

definition vendor_field_of :: "extraction_field \<Rightarrow> vendor_field" where
  "vendor_field_of f =
    VendorField (f_key f)
      (if f_type f = ''date'' then ''string'' else f_type f)
      (f_description f)
      (''What is the '' @ toLowerCase (f_description f) @ ''?'')"

definition extract_request :: "string \<Rightarrow> extraction_config \<Rightarrow> extract_structured_request" where
  "extract_request fileId config =
    ExtractStructured fileId (map vendor_field_of (cfg_fields config))"

text \<open>
  What the vendor call gives back. A success carries the response body: its
  \<^verbatim>\<open>answer\<close> member (an object, when the body has one), its \<^verbatim>\<open>ai_agent_info\<close>
  member and the body as a whole; \<open>'j\<close> is the type of the vendor's JSON. A failure is
  the thrown error: its message and, when the error carries a response, that response's
  body.
\<close>

datatype 'j vendor_body =
  VendorBody (answer: "'j option") (ai_agent_info: "'j option") (whole_body: 'j)

datatype 'j vendor_error =
  VendorError (error_message: string) (error_response_body: "'j option")

text \<open>
  The gateway's surroundings for one request: whether the Box client already exists,
  the error \<^verbatim>\<open>initializeBoxClient\<close> throws if it fails, the clock, and the vendor.
\<close>

record 'j gateway_env =
  boxClient :: bool
  initializeBoxClient :: "string option"
  now_iso :: string
  box_post :: "extract_structured_request \<Rightarrow> 'j vendor_error + 'j vendor_body"

record extract_body =
  fileId :: jsstr
  file_id :: jsstr
  extractionType :: jsstr
  extraction_type :: jsstr

text \<open>The three answers of the route: 400, 200 with the envelope, 500.\<close>

datatype 'j extract_response =
  BadRequest (bad_error: string) (validTypes: "string list option")
| Extracted (ok_success: bool) (ok_fileId: string) (ok_extractionType: string)
    (ok_timestamp: string) (ok_data: 'j) (ok_aiInfo: "'j option")
| ExtractFailed (failed_success: bool) (failed_error: string) (failed_details: "'j option")

fun extract_status :: "'j extract_response \<Rightarrow> nat" where
  "extract_status (BadRequest _ _) = 400"
| "extract_status (Extracted _ _ _ _ _ _) = 200"
| "extract_status (ExtractFailed _ _ _) = 500"

text \<open>The message of the error thrown on reading a member of \<^verbatim>\<open>undefined\<close>.\<close>

definition type_error_reading :: "string \<Rightarrow> string" where
  "type_error_reading member =
    ''Cannot read properties of undefined (reading '' @ [CHR 0x27] @ member @ [CHR 0x27] @ '')''"

text \<open>
  The call to the vendor and the envelope around its answer: the part of the handler
  after the configuration has been read.
\<close>

definition call_vendor ::
    "'j gateway_env \<Rightarrow> string \<Rightarrow> string \<Rightarrow> extraction_config \<Rightarrow> 'j extract_response" where
  "call_vendor env fid etype config =
    (case box_post env (extract_request fid config) of
       Inl err \<Rightarrow> ExtractFailed False (error_message err) (error_response_body err)
     | Inr body \<Rightarrow>
         Extracted True fid etype (now_iso env)
           (case answer body of Some a \<Rightarrow> a | None \<Rightarrow> whole_body body)
           (ai_agent_info body))"

text \<open>
  The handler. An extraction type that names an inherited property of the table passes
  the validity check; its \<^verbatim>\<open>fields\<close> member is \<^verbatim>\<open>undefined\<close>, so building the
  request throws and the route answers 500.
\<close>

definition extract_route :: "'j gateway_env \<Rightarrow> extract_body \<Rightarrow> 'j extract_response" where
  "extract_route env b =
    (let fid = js_or (fileId b) (file_id b);
         etype = js_or (extractionType b) (extraction_type b)
     in if \<not> truthy fid then BadRequest ''fileId is required'' None
        else if \<not> truthy etype \<or> js_get EXTRACTION_CONFIGS (template etype) = Undefined
          then BadRequest ''Invalid extractionType'' (Some (map fst EXTRACTION_CONFIGS))
        else if \<not> boxClient env \<and> initializeBoxClient env \<noteq> None
          then ExtractFailed False (template (initializeBoxClient env)) None
        else (case js_get EXTRACTION_CONFIGS (template etype) of
                Own config \<Rightarrow> call_vendor env (template fid) (template etype) config
              | Inherited k \<Rightarrow> ExtractFailed False (type_error_reading ''map'') None
              | Undefined \<Rightarrow>
                  BadRequest ''Invalid extractionType'' (Some (map fst EXTRACTION_CONFIGS))))"

subsection \<open>The route POST /webhook/box\<close>

record box_source =
  source_id :: jsstr
  source_name :: jsstr
  source_type :: jsstr

record webhook_body =
  trigger :: jsstr
  source :: "box_source option"

text \<open>The extraction type guessed from the file name.\<close>

definition extraction_type_of_name :: "string \<Rightarrow> string" where
  "extraction_type_of_name fileName =
    (if includes_str (toLowerCase fileName) ''medical'' then ''medical''
     else if includes_str (toLowerCase fileName) ''estimate'' then ''estimate''
     else if includes_str (toLowerCase fileName) ''police'' then ''police''
     else if includes_str (toLowerCase fileName) ''invoice'' then ''invoice''
     else ''fnol'')"

text \<open>The payload forwarded to n8n for an uploaded file.\<close>

datatype n8n_payload =
  N8nPayload (p_event: string) (p_fileId: jsstr) (p_fileName: string)
    (p_extractionType: string) (p_source: box_source) (p_timestamp: string)

text \<open>
  The receiver's surroundings: the two environment variables it reads, the clock, and
  the outcome of the forward to n8n (\<open>Some message\<close> when the fetch throws).
\<close>

record webhook_env =
  BOX_WEBHOOK_PRIMARY_KEY :: jsstr
  N8N_WEBHOOK_URL :: jsstr
  webhook_now_iso :: string
  n8n_fetch :: "n8n_payload \<Rightarrow> string option"

datatype webhook_response =
  Received
| InvalidSignature
| WebhookError string

fun webhook_status :: "webhook_response \<Rightarrow> nat" where
  "webhook_status Received = 200"
| "webhook_status InvalidSignature = 401"
| "webhook_status (WebhookError _) = 500"

text \<open>The handler after the signature check: the event handling inside the try block.\<close>

definition handle_event :: "webhook_env \<Rightarrow> webhook_body \<Rightarrow> webhook_response" where
  "handle_event env b =
    (if trigger b = Some ''FILE.UPLOADED'' then
       (case source b of
          None \<Rightarrow> WebhookError (type_error_reading ''id'')
        | Some src \<Rightarrow>
            (case source_name src of
               None \<Rightarrow> WebhookError (type_error_reading ''toLowerCase'')
             | Some fileName \<Rightarrow>
                 if truthy (N8N_WEBHOOK_URL env) then
                   (case n8n_fetch env
                           (N8nPayload ''file.uploaded'' (source_id src) fileName
                              (extraction_type_of_name fileName) src (webhook_now_iso env)) of
                      Some message \<Rightarrow> WebhookError message
                    | None \<Rightarrow> Received)
                 else Received))
     else Received)"

text \<open>
  The handler. \<open>signature\<close> is the \<^verbatim>\<open>x-box-signature\<close> header, and
  \<open>expectedSignature\<close> the digest
  \<^verbatim>\<open>crypto.createHmac('sha256', primaryKey).update(JSON.stringify(req.body)).digest('base64')\<close>
  of this request's body under the configured key, which the handler computes and
  compares only when both the key and the header are truthy.
\<close>

definition webhook_box :: "string \<Rightarrow> webhook_env \<Rightarrow> jsstr \<Rightarrow> webhook_body \<Rightarrow> webhook_response" where
  "webhook_box expectedSignature env signature b =
    (if truthy (BOX_WEBHOOK_PRIMARY_KEY env) \<and> truthy signature
        \<and> signature \<noteq> Some expectedSignature
     then InvalidSignature
     else handle_event env b)"

section \<open>The portal backend\<close>

subsection \<open>Claims and their store\<close>

text \<open>One entry of a claim's \<^verbatim>\<open>statusHistory\<close> array.\<close>

record history_entry =
  entry_status :: jsstr
  entry_date :: string
  entry_note :: string
  entry_updatedBy :: jsstr

text \<open>One entry of a claim's \<^verbatim>\<open>documents\<close> array: an uploaded file.\<close>

record uploaded_doc =
  doc_id :: string
  doc_name :: string
  doc_size :: nat
  doc_type :: string

text \<open>
  A row of the \<^verbatim>\<open>claims\<close> table. The amount is kept as submitted (its parse to a
  number is not modelled), the extraction result as the text of its JSON; the row's
  timestamps and the risk and adjuster columns, which no modelled route writes, are
  left out. \<open>statusHistory\<close> is \<open>None\<close> when the column holds no array.
\<close>

record claim =
  claim_id :: string
  userId :: string
  userName :: string
  policyNumber :: string
  claimType :: jsstr
  description :: jsstr
  incidentDate :: jsstr
  estimatedAmount :: jsstr
  status :: string
  statusHistory :: "history_entry list option"
  boxFolderId :: jsstr
  documents :: "uploaded_doc list"
  aiExtraction :: "string option"
  processInstanceKey :: jsstr
  workflowStatus :: string

text \<open>The table, by primary key. \<^verbatim>\<open>Claim.findByPk(undefined)\<close> finds nothing.\<close>

type_synonym claim_store = "string \<rightharpoonup> claim"

definition findByPk :: "claim_store \<Rightarrow> jsstr \<Rightarrow> claim option" where
  "findByPk store k = (case k of None \<Rightarrow> None | Some i \<Rightarrow> store i)"

text \<open>
  \<^verbatim>\<open>findByPk\<close> hands the handler an instance that holds the row's values. The two
  status routes then run
  \<^verbatim>\<open>const statusHistory = claim.statusHistory || []; statusHistory.unshift(entry)\<close>:
  when the instance holds an array, the entry is put in front of that very array, so the
  instance's own \<^verbatim>\<open>statusHistory\<close> changes in place; when it holds none, the entry
  goes into a fresh array the instance does not know. The result is the instance
  afterwards and the array the handler goes on with.
\<close>

definition unshift_entry :: "history_entry \<Rightarrow> claim \<Rightarrow> claim \<times> history_entry list" where
  "unshift_entry e inst =
    (case statusHistory inst of
       Some h \<Rightarrow> (inst\<lparr>statusHistory := Some (e # h)\<rparr>, e # h)
     | None \<Rightarrow> (inst, [e]))"

text \<open>
  \<^verbatim>\<open>claim.update({ status, statusHistory })\<close> on an instance and its row. The call sets
  the given values on the instance and writes to the row the attributes whose given
  value differs from the value the instance holds at the call; a given value of
  \<^verbatim>\<open>undefined\<close> is ignored. The result is the instance and the row afterwards.
\<close>

definition claim_update :: "claim \<Rightarrow> jsstr \<Rightarrow> history_entry list \<Rightarrow> claim \<Rightarrow> claim \<times> claim" where
  "claim_update inst s h row =
    (let status_given = (case s of None \<Rightarrow> status inst | Some x \<Rightarrow> x);
         row1 = (if status_given \<noteq> status inst then row\<lparr>status := status_given\<rparr> else row);
         row2 = (if Some h \<noteq> statusHistory inst then row1\<lparr>statusHistory := Some h\<rparr> else row1)
     in (inst\<lparr>status := status_given, statusHistory := Some h\<rparr>, row2))"

text \<open>
  The claim's status equals the status of the head entry of its history; a claim with
  no head entry does not qualify.
\<close>

definition status_agrees_with_history :: "claim \<Rightarrow> bool" where
  "status_agrees_with_history c =
    (case statusHistory c of
       Some (e # _) \<Rightarrow> entry_status e = Some (status c)
     | _ \<Rightarrow> False)"

subsection \<open>Claim submission: POST /api/claims\<close>

text \<open>The member in the session: the members of \<^verbatim>\<open>req.session.user\<close> the route reads.\<close>

record session_user =
  user_id :: string
  user_name :: string
  user_policyNumber :: string

record claim_body =
  body_claimType :: jsstr
  body_description :: jsstr
  body_incidentDate :: jsstr
  body_estimatedAmount :: jsstr

text \<open>A file of the multipart request, as multer hands it over (without its bytes).\<close>

record upload_file =
  originalname :: string
  file_size :: nat
  mimetype :: string

text \<open>The answer of the workflow engine to a started process.\<close>

record camunda_process =
  response_key :: jsstr
  response_processInstanceKey :: jsstr

text \<open>
  The surroundings of one submission: whether the Box client was initialised, the clock
  and the random identifier behind the claim id, the outcome of the folder creation
  (\<open>None\<close> when it throws), what the extraction gateway answers for a file id (\<open>None\<close>
  when the fetch or the parse of its answer throws), the outcome of the workflow start
  (\<open>Inl\<close> the error message), and the clock read in the fallback.
\<close>

record submit_env =
  portal_boxClient :: bool
  claim_now_ms :: nat
  uuid :: string
  folders_create :: "string option"
  submit_now_iso :: string
  extract_fetch :: "string \<Rightarrow> string option"
  camunda_start :: "string + camunda_process"
  demo_now_ms :: nat

text \<open>The calls to other services a submission makes, in order.\<close>

datatype outbound_call =
  FolderCreate
| RelayStart string
| UploadFile string string
| ExtractCall string string
| CamundaStart string

fun is_extract_call :: "outbound_call \<Rightarrow> bool" where
  "is_extract_call (ExtractCall _ _) = True"
| "is_extract_call _ = False"


text \<open>
  The upload loop. Each file of the request comes with what Box answers to its upload:
  \<open>Some i\<close> is the id of the stored file, \<open>None\<close> an upload that throws, which the
  loop logs and skips.
\<close>

fun upload_loop :: "(upload_file \<times> string option) list \<Rightarrow> uploaded_doc list" where
  "upload_loop [] = []"
| "upload_loop ((f, r) # rest) =
    (case r of
       Some i \<Rightarrow>
         \<lparr>doc_id = i, doc_name = originalname f, doc_size = file_size f, doc_type = mimetype f\<rparr>
           # upload_loop rest
     | None \<Rightarrow> upload_loop rest)"

datatype submit_response =
  SubmitNotAuthenticated
| SubmitSuccess (response_claim: claim) (response_key_field: jsstr)


text \<open>The folder step: the folder id, and the calls made.\<close>

definition create_folder :: "submit_env \<Rightarrow> jsstr \<times> outbound_call list" where
  "create_folder env =
    (if portal_boxClient env then
       (case folders_create env of
          Some folder \<Rightarrow> (Some folder, [FolderCreate, RelayStart folder])
        | None \<Rightarrow> (None, [FolderCreate]))
     else (None, []))"

text \<open>The upload step: the uploaded documents, and the calls made.\<close>

definition upload_documents ::
    "submit_env \<Rightarrow> jsstr \<Rightarrow> (upload_file \<times> string option) list
      \<Rightarrow> uploaded_doc list \<times> outbound_call list" where
  "upload_documents env folder files =
    (if files \<noteq> [] \<and> portal_boxClient env \<and> truthy folder
     then (upload_loop files, map (\<lambda>(f, r). UploadFile (template folder) (originalname f)) files)
     else ([], []))"

text \<open>
  The extraction step: one request for the head of \<^verbatim>\<open>uploadedDocs\<close>, with the fixed
  type \<^verbatim>\<open>insurance_claim\<close>.
\<close>

definition trigger_extraction ::
    "submit_env \<Rightarrow> jsstr \<Rightarrow> uploaded_doc list \<Rightarrow> string option \<times> outbound_call list" where
  "trigger_extraction env folder uploadedDocs =
    (case uploadedDocs of
       [] \<Rightarrow> (None, [])
     | d # _ \<Rightarrow>
         if truthy folder
         then (extract_fetch env (doc_id d), [ExtractCall (doc_id d) ''insurance_claim''])
         else (None, []))"

text \<open>
  The workflow step on the created row: the process key the response reports, and the
  row after its update.
\<close>

definition start_workflow :: "submit_env \<Rightarrow> claim \<Rightarrow> jsstr \<times> claim" where
  "start_workflow env c =
    (case camunda_start env of
       Inr r \<Rightarrow>
         (let k = js_or (response_key r) (response_processInstanceKey r)
          in (k, c\<lparr>processInstanceKey := k, workflowStatus := ''STARTED''\<rparr>))
     | Inl message \<Rightarrow>
         (let k = Some (''demo-process-'' @ decimal (demo_now_ms env))
          in (k, c\<lparr>processInstanceKey := k, workflowStatus := ''DEMO''\<rparr>)))"

text \<open>The handler: the response, the table afterwards, and the calls made.\<close>

definition submit_claim ::
    "submit_env \<Rightarrow> session_user option \<Rightarrow> claim_body \<Rightarrow> (upload_file \<times> string option) list
      \<Rightarrow> claim_store \<Rightarrow> submit_response \<times> claim_store \<times> outbound_call list" where
  "submit_claim env session b files store =
    (case session of
       None \<Rightarrow> (SubmitNotAuthenticated, store, [])
     | Some user \<Rightarrow>
         (let claimId = ''CLM-'' @ decimal (claim_now_ms env) @ ''-''
                          @ toUpperCase (take 4 (uuid env));
              (folder, folder_calls) = create_folder env;
              (uploadedDocs, upload_calls) = upload_documents env folder files;
              (extraction, extract_calls) = trigger_extraction env folder uploadedDocs;
              created = \<lparr>claim_id = claimId, userId = user_id user, userName = user_name user,
                         policyNumber = user_policyNumber user,
                         claimType = body_claimType b, description = body_description b,
                         incidentDate = body_incidentDate b,
                         estimatedAmount = body_estimatedAmount b,
                         status = ''Submitted'',
                         statusHistory =
                           Some [\<lparr>entry_status = Some ''Submitted'', entry_date = submit_now_iso env,
                                  entry_note = ''Claim submitted by member'',
                                  entry_updatedBy = None\<rparr>],
                         boxFolderId = folder, documents = uploadedDocs,
                         aiExtraction = extraction, processInstanceKey = None,
                         workflowStatus = ''NOT_STARTED''\<rparr>;
              (k, updated) = start_workflow env created
          in (SubmitSuccess updated k, store(claimId \<mapsto> updated),
              folder_calls @ upload_calls @ extract_calls @ [CamundaStart claimId])))"

subsection \<open>The admin routes\<close>

text \<open>
  The admin in the session, as the login route stores it. Its \<^verbatim>\<open>id\<close>, \<^verbatim>\<open>name\<close> and
  \<^verbatim>\<open>email\<close> are copied from the admin user that logged in and may be missing.
\<close>

record admin_session =
  admin_id :: jsstr
  admin_name :: jsstr
  admin_email :: jsstr
  admin_role :: string

text \<open>The module-level table \<^verbatim>\<open>adminUsers\<close>.\<close>

datatype admin_user =
  AdminUser (au_id: string) (au_name: string) (au_email: string) (au_password: string)

definition adminUsers :: "(string \<times> admin_user) list" where
  "adminUsers =
    [(''admin@suresafe.com'',
        AdminUser ''ADM001'' ''Admin User'' ''admin@suresafe.com'' ''admin123''),
     (''adjuster@suresafe.com'',
        AdminUser ''ADM002'' ''Sarah Mitchell'' ''adjuster@suresafe.com'' ''admin123''),
     (''supervisor@suresafe.com'',
        AdminUser ''ADM003'' ''Michael Chen'' ''supervisor@suresafe.com'' ''admin123''),
     (''investigator@suresafe.com'',
        AdminUser ''ADM004'' ''David Thompson'' ''investigator@suresafe.com'' ''admin123''),
     (''legal@suresafe.com'',
        AdminUser ''ADM005'' ''Jennifer Roberts'' ''legal@suresafe.com'' ''admin123''),
     (''executive@suresafe.com'',
        AdminUser ''ADM006'' ''Robert Williams'' ''executive@suresafe.com'' ''admin123'')]"

record login_body =
  email :: jsstr
  password :: jsstr
  role :: jsstr

datatype login_response =
  LoginSuccess (login_user: admin_session)
| InvalidCredentials

fun login_status :: "login_response \<Rightarrow> nat" where
  "login_status (LoginSuccess _) = 200"
| "login_status InvalidCredentials = 401"

text \<open>\<^verbatim>\<open>adminUsers[email] || adminUsers['admin@suresafe.com']\<close>: every looked-up value
  other than \<^verbatim>\<open>undefined\<close> is an object or a function, hence truthy.\<close>

definition lookup_admin :: "jsstr \<Rightarrow> admin_user js_prop" where
  "lookup_admin e =
    (case js_get adminUsers (template e) of
       Undefined \<Rightarrow> js_get adminUsers ''admin@suresafe.com''
     | found \<Rightarrow> found)"

text \<open>
  The password the looked-up value holds: an inherited function or object has no
  \<^verbatim>\<open>password\<close> member.
\<close>

definition stored_password :: "admin_user js_prop \<Rightarrow> jsstr" where
  "stored_password u = (case u of Own a \<Rightarrow> Some (au_password a) | _ \<Rightarrow> None)"

text \<open>
  \<^verbatim>\<open>{ ...adminUser, role: role || 'adjuster', password: undefined }\<close>: the spread copies
  the own enumerable members, of which an inherited function or object has none.
\<close>

definition session_of :: "admin_user js_prop \<Rightarrow> jsstr \<Rightarrow> admin_session" where
  "session_of u r =
    (case u of
       Own a \<Rightarrow>
         \<lparr>admin_id = Some (au_id a), admin_name = Some (au_name a),
          admin_email = Some (au_email a), admin_role = template (js_or r (Some ''adjuster''))\<rparr>
     | _ \<Rightarrow>
         \<lparr>admin_id = None, admin_name = None, admin_email = None,
          admin_role = template (js_or r (Some ''adjuster''))\<rparr>)"

text \<open>The handler of \<^verbatim>\<open>POST /api/admin/login\<close>.\<close>

definition admin_login :: "login_body \<Rightarrow> login_response" where
  "admin_login b =
    (let adminUser = lookup_admin (email b)
     in if adminUser \<noteq> Undefined
           \<and> (password b = Some ''admin123'' \<or> stored_password adminUser = password b)
        then LoginSuccess (session_of adminUser (role b))
        else InvalidCredentials)"

text \<open>The outcomes shared by the admin routes behind \<^verbatim>\<open>requireAdminAuth\<close>.\<close>

datatype 'a admin_response =
  NotAuthenticated
| NotFound
| Success 'a

text \<open>
  The handler of \<^verbatim>\<open>PUT /api/admin/claims/:id/status\<close>: the response, which carries
  the instance, and the table afterwards. The body's \<^verbatim>\<open>status\<close> is not validated
  and may be missing.
\<close>

record status_body =
  new_status :: jsstr
  status_notes :: jsstr

definition update_claim_status ::
    "admin_session option \<Rightarrow> string \<Rightarrow> string \<Rightarrow> status_body \<Rightarrow> claim_store
      \<Rightarrow> claim admin_response \<times> claim_store" where
  "update_claim_status session now k b store =
    (case session of
       None \<Rightarrow> (NotAuthenticated, store)
     | Some adminUser \<Rightarrow>
         (case store k of
            None \<Rightarrow> (NotFound, store)
          | Some row \<Rightarrow>
              (let entry =
                     \<lparr>entry_status = new_status b, entry_date = now,
                      entry_note =
                        template (js_or (status_notes b)
                          (Some (''Status updated to '' @ template (new_status b) @ '' by ''
                                   @ template (admin_name adminUser)))),
                      entry_updatedBy = admin_name adminUser\<rparr>;
                   (inst, history) = unshift_entry entry row;
                   (inst', row') = claim_update inst (new_status b) history row
               in (Success inst', store(k \<mapsto> row')))))"

text \<open>
  The task-completion route, \<^verbatim>\<open>POST /api/admin/camunda/task/:taskId/complete\<close>. Each
  member of \<^verbatim>\<open>variables\<close> is read as \<^verbatim>\<open>variables.NAME?.value\<close>.
\<close>

record task_variables =
  adjusterDecision :: jsstr
  reviewDecision :: jsstr
  managerDecision :: jsstr
  investigationOutcome :: jsstr

record task_body =
  variables :: "task_variables option"
  claimId :: jsstr

definition decision_of :: "task_variables \<Rightarrow> jsstr" where
  "decision_of v =
    js_or (js_or (js_or (adjusterDecision v) (reviewDecision v)) (managerDecision v))
      (investigationOutcome v)"

text \<open>The chain of string comparisons that picks the new status.\<close>

definition demo_status :: "string \<Rightarrow> jsstr \<Rightarrow> string" where
  "demo_status current decision =
    (if decision = Some ''approve'' \<or> decision = Some ''approved'' \<or> decision = Some ''CLEARED''
       then ''Approved''
     else if decision = Some ''deny'' \<or> decision = Some ''FRAUD_CONFIRMED'' then ''Denied''
     else if decision = Some ''escalate'' then ''Escalated''
     else if decision = Some ''request_more_docs'' then ''Pending Documents''
     else current)"

text \<open>
  The demo-mode branch: the catch block, entered when the call to the workflow engine
  throws. It always answers success; what it writes goes through the same
  \<^verbatim>\<open>unshift\<close> and \<^verbatim>\<open>claim.update\<close> as the status route.
\<close>

datatype task_result =
  EngineResult string
| DemoCompleted string

definition complete_task_demo ::
    "admin_session \<Rightarrow> string \<Rightarrow> string \<Rightarrow> task_body \<Rightarrow> claim_store
      \<Rightarrow> task_result admin_response \<times> claim_store" where
  "complete_task_demo adminUser now taskId b store =
    (case findByPk store (claimId b) of
       None \<Rightarrow> (Success (DemoCompleted taskId), store)
     | Some row \<Rightarrow>
         (case variables b of
            None \<Rightarrow> (Success (DemoCompleted taskId), store)
          | Some v \<Rightarrow>
              (let decision = decision_of v;
                   newStatus = demo_status (status row) decision;
                   entry =
                     \<lparr>entry_status = Some newStatus, entry_date = now,
                      entry_note = ''Task completed with decision: '' @ template decision,
                      entry_updatedBy = js_or (admin_name adminUser) (Some ''System'')\<rparr>;
                   (inst, history) = unshift_entry entry row;
                   (inst', row') = claim_update inst (Some newStatus) history row
               in (Success (DemoCompleted taskId), store(template (claimId b) \<mapsto> row')))))"

text \<open>
  The handler: \<open>engine\<close> is the outcome of the call to the workflow engine, \<open>Inl\<close> the
  error it throws.
\<close>

definition complete_task ::
    "admin_session option \<Rightarrow> string + string \<Rightarrow> string \<Rightarrow> string \<Rightarrow> task_body \<Rightarrow> claim_store
      \<Rightarrow> task_result admin_response \<times> claim_store" where
  "complete_task session engine now taskId b store =
    (case session of
       None \<Rightarrow> (NotAuthenticated, store)
     | Some adminUser \<Rightarrow>
         (case engine of
            Inr result \<Rightarrow> (Success (EngineResult result), store)
          | Inl message \<Rightarrow> complete_task_demo adminUser now taskId b store))"

section \<open>Properties of the webhook proxy\<close>

lemma trigger_routes_keys:
  "map fst TRIGGER_ROUTES =
    [''FILE.UPLOADED'', ''METADATA_INSTANCE.CREATED'', ''METADATA_INSTANCE.UPDATED'',
     ''METADATA_INSTANCE.DELETED'', ''TASK_ASSIGNMENT.CREATED'', ''TASK_ASSIGNMENT.UPDATED'',
     ''SIGN_REQUEST.COMPLETED'', ''SIGN_REQUEST.DECLINED'', ''SIGN_REQUEST.EXPIRED'',
     ''COLLABORATION.CREATED'', ''COLLABORATION.REMOVED'']"
  by (simp add: TRIGGER_ROUTES_def)

lemma trigger_routes_eleven: "length TRIGGER_ROUTES = 11 \<and> distinct (map fst TRIGGER_ROUTES)"
  by (simp add: TRIGGER_ROUTES_def)

text \<open>
  Every key and every path of the table is a non-empty string, and the path
  \<^verbatim>\<open>box-file-upload\<close> belongs to the trigger \<^verbatim>\<open>FILE.UPLOADED\<close> alone.
\<close>

lemma trigger_routes_shape:
  "list_all (\<lambda>(k, p). k \<noteq> [] \<and> p \<noteq> [] \<and> (p = ''box-file-upload'') = (k = ''FILE.UPLOADED''))
     TRIGGER_ROUTES"
  by (simp add: TRIGGER_ROUTES_def)

lemma trigger_routes_lookup:
  assumes "(k, p) \<in> set TRIGGER_ROUTES"
  shows "js_get TRIGGER_ROUTES k = Own p"
proof -
  have "distinct (map fst TRIGGER_ROUTES)"
    by (simp add: TRIGGER_ROUTES_def)
  with assms have "map_of TRIGGER_ROUTES k = Some p"
    by (rule map_of_is_SomeI [rotated])
  then show ?thesis
    by (simp add: js_get_def)
qed

text \<open>
  The ten triggers other than \<^verbatim>\<open>FILE.UPLOADED\<close> replace any request URL by
  \<^verbatim>\<open>/webhook/\<close> followed by their path; \<^verbatim>\<open>FILE.UPLOADED\<close> leaves the URL as it came.
\<close>

lemma dispatcher_route:
  assumes "(k, p) \<in> set TRIGGER_ROUTES"
  shows "box_file_upload_dispatcher url (Some k)
          = (if k = ''FILE.UPLOADED'' then url else ''/webhook/'' @ p)"
proof -
  from assms trigger_routes_shape
  have shape: "k \<noteq> []" "p \<noteq> []" "(p = ''box-file-upload'') = (k = ''FILE.UPLOADED'')"
    unfolding list_all_iff by fastforce+
  show ?thesis
    unfolding box_file_upload_dispatcher_def
    using shape by (simp add: trigger_routes_lookup [OF assms] del: String.char.inject list.inject)
qed

text \<open>
  On a request for \<^verbatim>\<open>/webhook/box-file-upload\<close>, each of the eleven triggers of the
  table ends on \<^verbatim>\<open>/webhook/\<close> followed by its path.
\<close>

lemma dispatcher_known_trigger:
  assumes "(k, p) \<in> set TRIGGER_ROUTES"
  shows "box_file_upload_dispatcher ''/webhook/box-file-upload'' (Some k) = ''/webhook/'' @ p"
proof (cases "k = ''FILE.UPLOADED''")
  case True
  from assms trigger_routes_shape
  have "(p = ''box-file-upload'') = (k = ''FILE.UPLOADED'')"
    unfolding list_all_iff by fastforce
  with True have "p = ''box-file-upload''"
    by simp
  with True show ?thesis
    by (simp add: box_file_upload_dispatcher_def js_get_def TRIGGER_ROUTES_def)
next
  case False
  then show ?thesis
    by (simp only: dispatcher_route [OF assms] if_False)
qed

text \<open>\<^verbatim>\<open>FILE.UPLOADED\<close> and an absent trigger leave the URL as it came.\<close>

lemma dispatcher_file_uploaded:
  "box_file_upload_dispatcher url (Some ''FILE.UPLOADED'') = url"
  by (simp add: box_file_upload_dispatcher_def js_get_def TRIGGER_ROUTES_def)

lemma dispatcher_no_trigger: "box_file_upload_dispatcher url None = url"
  by (simp add: box_file_upload_dispatcher_def)

text \<open>
  A trigger that is neither a key of the table nor the name of an inherited property
  leaves the URL as it came.
\<close>

lemma dispatcher_unknown_trigger:
  assumes "t \<notin> set (map fst TRIGGER_ROUTES)" and "t \<notin> set OBJECT_PROTOTYPE_KEYS"
  shows "box_file_upload_dispatcher url (Some t) = url"
proof -
  from assms(1) have "map_of TRIGGER_ROUTES t = None"
    by (simp add: map_of_eq_None_iff)
  with assms(2) have "js_get TRIGGER_ROUTES t = Undefined"
    by (simp add: js_get_def)
  then show ?thesis
    by (simp add: box_file_upload_dispatcher_def)
qed

text \<open>The spec's example: a completed sign request goes to the \<^verbatim>\<open>box-sign\<close> path.\<close>

lemma dispatcher_sign_request_completed:
  "box_file_upload_dispatcher ''/webhook/box-file-upload'' (Some ''SIGN_REQUEST.COMPLETED'')
    = ''/webhook/box-sign''"
  by (simp add: box_file_upload_dispatcher_def js_get_def TRIGGER_ROUTES_def)

text \<open>
  C1. The claim: a trigger among the eleven keys of the table sends the request to the
  documented path, and any other trigger leaves the URL unchanged. The second half fails
  on the code for a trigger that names a property every object literal inherits:
  \<^verbatim>\<open>constructor\<close> is not a key of the table, yet the table lookup yields the inherited
  function, which is truthy and differs from \<^verbatim>\<open>box-file-upload\<close>, so the URL is
  replaced by \<^verbatim>\<open>/webhook/\<close> followed by the text of that function.
\<close>

theorem dispatcher_constructor_trigger:
  "''constructor'' \<notin> set (map fst TRIGGER_ROUTES)
   \<and> box_file_upload_dispatcher ''/webhook/box-file-upload'' (Some ''constructor'')
       = ''/webhook/function Object() { [native code] }''
   \<and> box_file_upload_dispatcher ''/webhook/box-file-upload'' (Some ''constructor'')
       \<noteq> ''/webhook/box-file-upload''"
  by (simp add: box_file_upload_dispatcher_def js_get_def TRIGGER_ROUTES_def
      OBJECT_PROTOTYPE_KEYS_def inherited_template_def)

section \<open>Properties of the extraction gateway\<close>

lemma extraction_config_lookup:
  assumes "(k, config) \<in> set EXTRACTION_CONFIGS"
  shows "js_get EXTRACTION_CONFIGS k = Own config"
proof -
  have "distinct (map fst EXTRACTION_CONFIGS)"
    by (simp add: EXTRACTION_CONFIGS_def)
  with assms have "map_of EXTRACTION_CONFIGS k = Some config"
    by (rule map_of_is_SomeI [rotated])
  then show ?thesis
    by (simp add: js_get_def)
qed

lemma extraction_config_keys:
  "map fst EXTRACTION_CONFIGS =
    [''fnol'', ''medical'', ''estimate'', ''police'', ''invoice'', ''insurance_claim'']"
  by (simp add: EXTRACTION_CONFIGS_def)

text \<open>
  A request that carries a file id and a key of the table, served with a Box client at
  hand, is answered by the vendor call for that key's configuration.
\<close>

lemma extract_route_calls_vendor:
  assumes fid: "js_or (fileId b) (file_id b) = Some fid" "fid \<noteq> []"
    and etype: "js_or (extractionType b) (extraction_type b) = Some k"
    and config: "(k, config) \<in> set EXTRACTION_CONFIGS"
    and client: "boxClient env \<or> initializeBoxClient env = None"
  shows "extract_route env b = call_vendor env fid k config"
proof -
  have "list_all (\<lambda>(k, c). k \<noteq> []) EXTRACTION_CONFIGS"
    by (simp add: EXTRACTION_CONFIGS_def)
  with config have "k \<noteq> []"
    unfolding list_all_iff by fastforce
  with fid etype client show ?thesis
    by (auto simp add: extract_route_def Let_def truthy_def template_def
        extraction_config_lookup [OF config])
qed

text \<open>
  C5. For a request that carries a file id and one of the six document-type keys, served
  with a Box client at hand (the vendor is called only then): when the vendor call
  succeeds, the answer is 200 with \<open>success\<close> true, the request's file id, the clock's
  timestamp, and as \<open>data\<close> the \<^verbatim>\<open>answer\<close> member of the vendor's body (the body itself
  when it has none); when the vendor call fails, the answer is 500 and its \<open>error\<close> is
  the message of the vendor's error.
\<close>

theorem extract_envelope:
  assumes "js_or (fileId b) (file_id b) = Some fid" and "fid \<noteq> []"
    and "js_or (extractionType b) (extraction_type b) = Some k"
    and "(k, config) \<in> set EXTRACTION_CONFIGS"
    and "boxClient env \<or> initializeBoxClient env = None"
  shows "(case box_post env (extract_request fid config) of
            Inr body \<Rightarrow>
              extract_status (extract_route env b) = 200
              \<and> extract_route env b =
                  Extracted True fid k (now_iso env)
                    (case answer body of Some a \<Rightarrow> a | None \<Rightarrow> whole_body body)
                    (ai_agent_info body)
          | Inl err \<Rightarrow>
              extract_status (extract_route env b) = 500
              \<and> extract_route env b =
                  ExtractFailed False (error_message err) (error_response_body err))"
  unfolding extract_route_calls_vendor [OF assms]
  by (simp add: call_vendor_def split: sum.split)

theorem extract_envelope_witness:
  "(let env = \<lparr>boxClient = True, initializeBoxClient = None, now_iso = ''2026-01-01T00:00:00.000Z'',
               box_post = (\<lambda>r. if items_file_id r = ''F1''
                                 then Inr (VendorBody (Some ''answer'') None ''body'')
                                 else Inl (VendorError ''Not Found'' None))\<rparr>
    in extract_route env
         \<lparr>fileId = Some ''F1'', file_id = None, extractionType = Some ''invoice'',
          extraction_type = None\<rparr>
        = Extracted True ''F1'' ''invoice'' ''2026-01-01T00:00:00.000Z'' ''answer'' None
      \<and> extract_route env
         \<lparr>fileId = None, file_id = Some ''F2'', extractionType = None,
          extraction_type = Some ''fnol''\<rparr>
        = ExtractFailed False ''Not Found'' None)"
proof -
  let ?env = "\<lparr>boxClient = True, initializeBoxClient = None, now_iso = ''2026-01-01T00:00:00.000Z'',
               box_post = (\<lambda>r. if items_file_id r = ''F1''
                                 then Inr (VendorBody (Some ''answer'') None ''body'')
                                 else Inl (VendorError ''Not Found'' None))\<rparr>"
  let ?b1 = "\<lparr>fileId = Some ''F1'', file_id = None, extractionType = Some ''invoice'',
          extraction_type = None\<rparr>"
  let ?b2 = "\<lparr>fileId = None, file_id = Some ''F2'', extractionType = None,
          extraction_type = Some ''fnol''\<rparr>"
  have c1: "(''invoice'', Config ''Vendor_Invoice_Extraction'' INVOICE_FIELDS) \<in> set EXTRACTION_CONFIGS"
    by (simp add: EXTRACTION_CONFIGS_def)
  have c2: "(''fnol'', Config ''FNOL_Extraction'' FNOL_FIELDS) \<in> set EXTRACTION_CONFIGS"
    by (simp add: EXTRACTION_CONFIGS_def)
  have "extract_route ?env ?b1
          = Extracted True ''F1'' ''invoice'' ''2026-01-01T00:00:00.000Z'' ''answer'' None"
    using extract_envelope [of ?b1 "''F1''" "''invoice''" _ ?env, OF _ _ _ c1]
    by (simp add: js_or_def truthy_def extract_request_def)
  moreover have "extract_route ?env ?b2 = ExtractFailed False ''Not Found'' None"
    using extract_envelope [of ?b2 "''F2''" "''fnol''" _ ?env, OF _ _ _ c2]
    by (simp add: js_or_def truthy_def extract_request_def)
  ultimately show ?thesis
    by (simp add: Let_def)
qed

text \<open>
  C6, as the code has it. The \<^verbatim>\<open>fnol\<close> entry of the configuration table has exactly 20
  fields, with 20 different keys, and a request for the type \<^verbatim>\<open>fnol\<close> is answered by
  the vendor call whose body asks for exactly those 20 keys, in the table's order. When
  that call succeeds the answer has \<open>success\<close> true and as \<open>data\<close> what the vendor
  sent, unchecked: the \<^verbatim>\<open>answer\<close> member of the vendor's body, or the whole body when it
  has none.
\<close>

theorem fnol_twenty_fields:
  assumes "js_or (fileId b) (file_id b) = Some fid" and "fid \<noteq> []"
    and "js_or (extractionType b) (extraction_type b) = Some ''fnol''"
    and "boxClient env \<or> initializeBoxClient env = None"
  shows "js_get EXTRACTION_CONFIGS ''fnol'' = Own (Config ''FNOL_Extraction'' FNOL_FIELDS)
    \<and> length FNOL_FIELDS = 20
    \<and> distinct (map f_key FNOL_FIELDS)
    \<and> map f_key FNOL_FIELDS =
        [''claimantName'', ''dateOfLoss'', ''timeOfLoss'', ''incidentLocation'',
         ''incidentDescription'', ''lossType'', ''policyNumber'', ''contactPhone'',
         ''contactEmail'', ''injuriesReported'', ''injuryDescription'', ''policeReportFiled'',
         ''policeReportNumber'', ''otherParties'', ''witnesses'', ''estimatedDamage'',
         ''vehicleYear'', ''vehicleMake'', ''vehicleModel'', ''vehicleVIN'']
    \<and> extract_route env b = call_vendor env fid ''fnol'' (Config ''FNOL_Extraction'' FNOL_FIELDS)
    \<and> items_file_id (extract_request fid (Config ''FNOL_Extraction'' FNOL_FIELDS)) = fid
    \<and> map vf_key (request_fields (extract_request fid (Config ''FNOL_Extraction'' FNOL_FIELDS)))
        = map f_key FNOL_FIELDS
    \<and> (case box_post env (extract_request fid (Config ''FNOL_Extraction'' FNOL_FIELDS)) of
          Inr body \<Rightarrow>
            extract_route env b =
              Extracted True fid ''fnol'' (now_iso env)
                (case answer body of Some a \<Rightarrow> a | None \<Rightarrow> whole_body body)
                (ai_agent_info body)
        | Inl err \<Rightarrow> extract_status (extract_route env b) = 500)"
proof -
  have entry: "(''fnol'', Config ''FNOL_Extraction'' FNOL_FIELDS) \<in> set EXTRACTION_CONFIGS"
    by (simp add: EXTRACTION_CONFIGS_def)
  have route: "extract_route env b
      = call_vendor env fid ''fnol'' (Config ''FNOL_Extraction'' FNOL_FIELDS)"
    using assms(1-3) entry assms(4) by (rule extract_route_calls_vendor)
  have keys: "map vf_key (map vendor_field_of fs) = map f_key fs" for fs
    by (induction fs) (simp_all add: vendor_field_of_def)
  have "length FNOL_FIELDS = 20"
    by (simp add: FNOL_FIELDS_def)
  moreover have "distinct (map f_key FNOL_FIELDS)"
    by (simp add: FNOL_FIELDS_def)
  moreover have "map f_key FNOL_FIELDS =
        [''claimantName'', ''dateOfLoss'', ''timeOfLoss'', ''incidentLocation'',
         ''incidentDescription'', ''lossType'', ''policyNumber'', ''contactPhone'',
         ''contactEmail'', ''injuriesReported'', ''injuryDescription'', ''policeReportFiled'',
         ''policeReportNumber'', ''otherParties'', ''witnesses'', ''estimatedDamage'',
         ''vehicleYear'', ''vehicleMake'', ''vehicleModel'', ''vehicleVIN'']"
    by (simp add: FNOL_FIELDS_def)
  moreover have "map vf_key (request_fields (extract_request fid (Config ''FNOL_Extraction'' FNOL_FIELDS)))
        = map f_key FNOL_FIELDS"
    by (simp only: extract_request_def extract_structured_request.sel extraction_config.sel keys)
  moreover have "items_file_id (extract_request fid (Config ''FNOL_Extraction'' FNOL_FIELDS)) = fid"
    by (simp add: extract_request_def)
  moreover have "(case box_post env (extract_request fid (Config ''FNOL_Extraction'' FNOL_FIELDS)) of
          Inr body \<Rightarrow>
            extract_route env b =
              Extracted True fid ''fnol'' (now_iso env)
                (case answer body of Some a \<Rightarrow> a | None \<Rightarrow> whole_body body)
                (ai_agent_info body)
        | Inl err \<Rightarrow> extract_status (extract_route env b) = 500)"
    unfolding route by (simp add: call_vendor_def split: sum.split)
  ultimately show ?thesis
    using route extraction_config_lookup [OF entry] by (simp only: simp_thms)
qed

theorem fnol_twenty_fields_witness:
  "(let env = \<lparr>boxClient = False, initializeBoxClient = None, now_iso = ''2026-01-01T00:00:00.000Z'',
               box_post = (\<lambda>r. if map vf_key (request_fields r) = map f_key FNOL_FIELDS
                                 then Inr (VendorBody (Some ''{}'') None ''body'')
                                 else Inl (VendorError ''Bad Request'' None))\<rparr>
    in extract_route env
         \<lparr>fileId = Some ''123'', file_id = None, extractionType = Some ''fnol'',
          extraction_type = None\<rparr>
        = Extracted True ''123'' ''fnol'' ''2026-01-01T00:00:00.000Z'' ''{}'' None)"
proof -
  let ?env = "\<lparr>boxClient = False, initializeBoxClient = None, now_iso = ''2026-01-01T00:00:00.000Z'',
               box_post = (\<lambda>r. if map vf_key (request_fields r) = map f_key FNOL_FIELDS
                                 then Inr (VendorBody (Some ''{}'') None ''body'')
                                 else Inl (VendorError ''Bad Request'' None))\<rparr>"
  let ?b = "\<lparr>fileId = Some ''123'', file_id = None, extractionType = Some ''fnol'',
          extraction_type = None\<rparr>"
  have "js_or (fileId ?b) (file_id ?b) = Some ''123''"
    and "''123'' \<noteq> []"
    and "js_or (extractionType ?b) (extraction_type ?b) = Some ''fnol''"
    and "boxClient ?env \<or> initializeBoxClient ?env = None"
    by (simp_all add: js_or_def truthy_def)
  from fnol_twenty_fields [OF this]
  have keys: "map vf_key (request_fields (extract_request ''123'' (Config ''FNOL_Extraction'' FNOL_FIELDS)))
        = map f_key FNOL_FIELDS"
    and answer: "(case box_post ?env (extract_request ''123'' (Config ''FNOL_Extraction'' FNOL_FIELDS)) of
          Inr body \<Rightarrow>
            extract_route ?env ?b =
              Extracted True ''123'' ''fnol'' (now_iso ?env)
                (case answer body of Some a \<Rightarrow> a | None \<Rightarrow> whole_body body)
                (ai_agent_info body)
        | Inl err \<Rightarrow> extract_status (extract_route ?env ?b) = 500)"
    by blast+
  from answer show ?thesis
    by (simp add: keys Let_def)
qed

text \<open>
  The claim as stated fails on the keys of \<open>data\<close>, which the gateway passes through
  as they come: a vendor body without an \<^verbatim>\<open>answer\<close> member, here an object with the
  members \<^verbatim>\<open>created_at\<close> and \<^verbatim>\<open>completion_reason\<close>, is returned whole as \<open>data\<close>
  of a successful answer, and neither key is one of the 20.
\<close>

theorem fnol_twenty_fields_counterexample:
  "extract_route
      \<lparr>boxClient = True, initializeBoxClient = None, now_iso = ''2026-01-01T00:00:00.000Z'',
       box_post = (\<lambda>r. Inr (VendorBody None None
                      [(''created_at'', ''2026-01-01T00:00:00Z''),
                       (''completion_reason'', ''done'')]))\<rparr>
      \<lparr>fileId = Some ''123'', file_id = None, extractionType = Some ''fnol'',
       extraction_type = None\<rparr>
     = Extracted True ''123'' ''fnol'' ''2026-01-01T00:00:00.000Z''
         [(''created_at'', ''2026-01-01T00:00:00Z''), (''completion_reason'', ''done'')] None
   \<and> ''created_at'' \<notin> set (map f_key FNOL_FIELDS)
   \<and> ''completion_reason'' \<notin> set (map f_key FNOL_FIELDS)"
  by (simp add: extract_route_def call_vendor_def js_or_def truthy_def template_def js_get_def
      EXTRACTION_CONFIGS_def FNOL_FIELDS_def Let_def)

section \<open>Properties of the webhook receiver\<close>

text \<open>The event handling answers 200 or 500, never 401.\<close>

lemma handle_event_not_rejected: "handle_event env b \<noteq> InvalidSignature"
  by (simp add: handle_event_def split: option.split)

lemma handle_event_status: "webhook_status (handle_event env b) \<in> {200, 500}"
  by (simp add: handle_event_def split: option.split)

text \<open>An event other than \<^verbatim>\<open>FILE.UPLOADED\<close> is acknowledged.\<close>

lemma handle_event_other_trigger:
  assumes "trigger b \<noteq> Some ''FILE.UPLOADED''"
  shows "handle_event env b = Received"
  using assms by (simp add: handle_event_def)

text \<open>
  An uploaded file whose event names the file is acknowledged when no n8n URL is set or
  the forward goes through.
\<close>

lemma handle_event_file_uploaded:
  assumes "trigger b = Some ''FILE.UPLOADED''"
    and "source b = Some src" and "source_name src = Some fileName"
    and "\<not> truthy (N8N_WEBHOOK_URL env)
         \<or> n8n_fetch env (N8nPayload ''file.uploaded'' (source_id src) fileName
               (extraction_type_of_name fileName) src (webhook_now_iso env)) = None"
  shows "handle_event env b = Received"
  using assms by (auto simp add: handle_event_def)

text \<open>The receiver answers 401 exactly when key and header are truthy and differ from
  the digest.\<close>

lemma webhook_rejects_iff:
  "webhook_box expectedSignature env signature b = InvalidSignature
    \<longleftrightarrow> truthy (BOX_WEBHOOK_PRIMARY_KEY env) \<and> truthy signature
        \<and> signature \<noteq> Some expectedSignature"
  by (simp add: webhook_box_def handle_event_not_rejected)

text \<open>
  C4, as the code has it. The receiver answers 401 whenever the key is configured, the
  signature header is present and not empty, and the header differs from the digest of
  the body. Whenever the key is unset, the signature plays no part: the request is never
  answered 401, the answer is that of the event handling, which is 200 for every event
  other than \<^verbatim>\<open>FILE.UPLOADED\<close> and 200 or 500 for \<^verbatim>\<open>FILE.UPLOADED\<close>.
\<close>

theorem webhook_signature_check:
  "(truthy (BOX_WEBHOOK_PRIMARY_KEY env) \<and> truthy signature
      \<and> signature \<noteq> Some expectedSignature
     \<longrightarrow> webhook_box expectedSignature env signature b = InvalidSignature
         \<and> webhook_status (webhook_box expectedSignature env signature b) = 401)
   \<and> (BOX_WEBHOOK_PRIMARY_KEY env = None
     \<longrightarrow> webhook_box expectedSignature env signature b = handle_event env b
         \<and> webhook_status (webhook_box expectedSignature env signature b) \<in> {200, 500}
         \<and> (trigger b \<noteq> Some ''FILE.UPLOADED''
              \<longrightarrow> webhook_box expectedSignature env signature b = Received))"
proof -
  have unset: "webhook_box expectedSignature env signature b = handle_event env b"
    if "BOX_WEBHOOK_PRIMARY_KEY env = None"
    using that by (simp add: webhook_box_def truthy_def)
  show ?thesis
    using handle_event_status [of env b] handle_event_other_trigger [of b env]
    by (auto simp add: unset webhook_rejects_iff [THEN iffD2])
qed

theorem webhook_signature_check_witness:
  "webhook_box ''good''
      \<lparr>BOX_WEBHOOK_PRIMARY_KEY = Some ''secret'', N8N_WEBHOOK_URL = None,
       webhook_now_iso = ''2026-01-01T00:00:00.000Z'', n8n_fetch = Map.empty\<rparr>
      (Some ''bad'') \<lparr>trigger = Some ''FILE.UPLOADED'', source = None\<rparr>
     = InvalidSignature
   \<and> webhook_box ''good''
      \<lparr>BOX_WEBHOOK_PRIMARY_KEY = None, N8N_WEBHOOK_URL = None,
       webhook_now_iso = ''2026-01-01T00:00:00.000Z'', n8n_fetch = Map.empty\<rparr>
      (Some ''bad'') \<lparr>trigger = Some ''COLLABORATION.CREATED'', source = None\<rparr>
     = Received"
proof -
  let ?set = "\<lparr>BOX_WEBHOOK_PRIMARY_KEY = Some ''secret'', N8N_WEBHOOK_URL = None,
       webhook_now_iso = ''2026-01-01T00:00:00.000Z'', n8n_fetch = Map.empty\<rparr>"
  let ?unset = "\<lparr>BOX_WEBHOOK_PRIMARY_KEY = None, N8N_WEBHOOK_URL = None,
       webhook_now_iso = ''2026-01-01T00:00:00.000Z'', n8n_fetch = Map.empty\<rparr>"
  let ?upload = "\<lparr>trigger = Some ''FILE.UPLOADED'', source = None\<rparr>"
  let ?collab = "\<lparr>trigger = Some ''COLLABORATION.CREATED'', source = None\<rparr>"
  have "truthy (BOX_WEBHOOK_PRIMARY_KEY ?set) \<and> truthy (Some ''bad'')
      \<and> Some ''bad'' \<noteq> Some ''good''"
    by (simp add: truthy_def)
  with webhook_signature_check [of ?set "Some ''bad''" "''good''" ?upload]
  have rejected: "webhook_box ''good'' ?set (Some ''bad'') ?upload = InvalidSignature"
    by blast
  have "BOX_WEBHOOK_PRIMARY_KEY ?unset = None"
    and "trigger ?collab \<noteq> Some ''FILE.UPLOADED''"
    by simp_all
  with webhook_signature_check [of ?unset "Some ''bad''" "''good''" ?collab]
  have accepted: "webhook_box ''good'' ?unset (Some ''bad'') ?collab = Received"
    by blast
  from rejected accepted show ?thesis
    by (rule conjI)
qed

text \<open>
  The claim as stated fails twice. With the key configured and no signature header, the
  digest differs from the (absent) header value, yet the request is answered 200. With
  the key unset, a \<^verbatim>\<open>FILE.UPLOADED\<close> event that carries no \<^verbatim>\<open>source\<close> is answered
  500, not 200.
\<close>

theorem webhook_signature_check_counterexample:
  "Some ''digest'' \<noteq> (None :: string option)
   \<and> webhook_box ''digest''
        \<lparr>BOX_WEBHOOK_PRIMARY_KEY = Some ''secret'', N8N_WEBHOOK_URL = None,
         webhook_now_iso = ''2026-01-01T00:00:00.000Z'', n8n_fetch = Map.empty\<rparr>
        None \<lparr>trigger = Some ''COLLABORATION.CREATED'', source = None\<rparr>
       = Received
   \<and> webhook_status (webhook_box ''digest''
        \<lparr>BOX_WEBHOOK_PRIMARY_KEY = None, N8N_WEBHOOK_URL = None,
         webhook_now_iso = ''2026-01-01T00:00:00.000Z'', n8n_fetch = Map.empty\<rparr>
        None \<lparr>trigger = Some ''FILE.UPLOADED'', source = None\<rparr>)
       = 500"
  by (simp add: webhook_box_def handle_event_def truthy_def)

text \<open>
  C10, as the code has it. With the key configured and no signature header, the receiver
  verifies nothing: its answer is that of the event handling, whatever the digest, and is
  never 401. That answer is 200 for every event other than \<^verbatim>\<open>FILE.UPLOADED\<close>, and for a
  \<^verbatim>\<open>FILE.UPLOADED\<close> event that names its file when no n8n URL is set or the forward goes
  through. A request is answered 401 only when both the key and the header are truthy.
\<close>

theorem webhook_missing_header:
  assumes "truthy (BOX_WEBHOOK_PRIMARY_KEY env)"
  shows "webhook_box expectedSignature env None b = handle_event env b
    \<and> webhook_box expectedSignature env None b \<noteq> InvalidSignature
    \<and> webhook_status (webhook_box expectedSignature env None b) \<in> {200, 500}
    \<and> (trigger b \<noteq> Some ''FILE.UPLOADED''
         \<longrightarrow> webhook_box expectedSignature env None b = Received)
    \<and> (\<forall>src fileName. trigger b = Some ''FILE.UPLOADED'' \<and> source b = Some src
           \<and> source_name src = Some fileName
           \<and> (\<not> truthy (N8N_WEBHOOK_URL env)
               \<or> n8n_fetch env (N8nPayload ''file.uploaded'' (source_id src) fileName
                     (extraction_type_of_name fileName) src (webhook_now_iso env)) = None)
         \<longrightarrow> webhook_box expectedSignature env None b = Received)
    \<and> (\<forall>signature. webhook_box expectedSignature env signature b = InvalidSignature
         \<longrightarrow> truthy (BOX_WEBHOOK_PRIMARY_KEY env) \<and> truthy signature)"
proof -
  have same: "webhook_box expectedSignature env None b = handle_event env b"
    by (simp add: webhook_box_def truthy_def)
  show ?thesis
    unfolding same
    using handle_event_not_rejected [of env b] handle_event_status [of env b]
      handle_event_other_trigger [of b env] handle_event_file_uploaded [of b _ _ env]
    by (auto simp add: webhook_rejects_iff)
qed

theorem webhook_missing_header_witness:
  "truthy (Some ''secret'')
   \<and> webhook_box ''digest''
        \<lparr>BOX_WEBHOOK_PRIMARY_KEY = Some ''secret'', N8N_WEBHOOK_URL = None,
         webhook_now_iso = ''2026-01-01T00:00:00.000Z'', n8n_fetch = Map.empty\<rparr>
        None
        \<lparr>trigger = Some ''FILE.UPLOADED'',
         source = Some \<lparr>source_id = Some ''42'', source_name = Some ''Police Report.pdf'',
                         source_type = Some ''file''\<rparr>\<rparr>
       = Received"
proof -
  let ?env = "\<lparr>BOX_WEBHOOK_PRIMARY_KEY = Some ''secret'', N8N_WEBHOOK_URL = None,
         webhook_now_iso = ''2026-01-01T00:00:00.000Z'', n8n_fetch = Map.empty\<rparr>"
  let ?src = "\<lparr>source_id = Some ''42'', source_name = Some ''Police Report.pdf'',
                         source_type = Some ''file''\<rparr>"
  let ?b = "\<lparr>trigger = Some ''FILE.UPLOADED'', source = Some ?src\<rparr>"
  have key: "truthy (BOX_WEBHOOK_PRIMARY_KEY ?env)"
    by (simp add: truthy_def)
  have event: "trigger ?b = Some ''FILE.UPLOADED'' \<and> source ?b = Some ?src
           \<and> source_name ?src = Some ''Police Report.pdf''
           \<and> (\<not> truthy (N8N_WEBHOOK_URL ?env)
               \<or> n8n_fetch ?env (N8nPayload ''file.uploaded'' (source_id ?src) ''Police Report.pdf''
                     (extraction_type_of_name ''Police Report.pdf'') ?src (webhook_now_iso ?env)) = None)"
    by (simp add: truthy_def)
  from webhook_missing_header [OF key, of "''digest''" ?b] event
  have "webhook_box ''digest'' ?env None ?b = Received"
    by blast
  with key show ?thesis
    by simp
qed

text \<open>
  The claim as stated fails where the event handling throws: with the key configured and
  no signature header, a \<^verbatim>\<open>FILE.UPLOADED\<close> event whose forward to n8n fails is answered
  500 with the error's message, not 200.
\<close>

theorem webhook_missing_header_counterexample:
  "webhook_box ''digest''
      \<lparr>BOX_WEBHOOK_PRIMARY_KEY = Some ''secret'', N8N_WEBHOOK_URL = Some ''http://n8n/webhook'',
       webhook_now_iso = ''2026-01-01T00:00:00.000Z'',
       n8n_fetch = (\<lambda>p. Some ''fetch failed'')\<rparr>
      None
      \<lparr>trigger = Some ''FILE.UPLOADED'',
       source = Some \<lparr>source_id = Some ''42'', source_name = Some ''Police Report.pdf'',
                       source_type = Some ''file''\<rparr>\<rparr>
     = WebhookError ''fetch failed''
   \<and> webhook_status (WebhookError ''fetch failed'') = 500"
  by (simp add: webhook_box_def handle_event_def truthy_def)

section \<open>Properties of claim submission\<close>

text \<open>
  The ids of the uploaded documents are the ids Box gave, in submission order, for the
  files whose upload succeeded.
\<close>

lemma upload_loop_ids: "map doc_id (upload_loop files) = List.map_filter snd files"
proof (induction files)
  case Nil
  show ?case
    by (simp add: List.map_filter_simps)
next
  case (Cons p files)
  obtain f r where p: "p = (f, r)"
    by (cases p)
  show ?case
    unfolding p using Cons.IH by (cases r) (simp_all add: List.map_filter_simps)
qed

lemma create_folder_id:
  "fst (create_folder env) = (if portal_boxClient env then folders_create env else None)"
  by (simp add: create_folder_def split: option.split)

lemma create_folder_calls: "filter is_extract_call (snd (create_folder env)) = []"
  by (simp add: create_folder_def split: option.split)

lemma upload_documents_calls:
  "filter is_extract_call (snd (upload_documents env folder files)) = []"
proof -
  have "filter is_extract_call (map (\<lambda>(f, r). UploadFile x (originalname f)) fs) = []"
    for x and fs :: "(upload_file \<times> string option) list"
    by (induction fs) (simp_all add: split_beta)
  then show ?thesis
    by (simp add: upload_documents_def)
qed

lemma upload_documents_docs:
  "map doc_id (fst (upload_documents env folder files))
    = (if portal_boxClient env \<and> truthy folder then List.map_filter snd files else [])"
  by (cases files) (simp_all add: upload_documents_def upload_loop_ids List.map_filter_simps)

lemma trigger_extraction_calls:
  "snd (trigger_extraction env folder docs)
    = (case map doc_id docs of
         [] \<Rightarrow> []
       | i # _ \<Rightarrow> if truthy folder then [ExtractCall i ''insurance_claim''] else [])"
  by (cases docs) (simp_all add: trigger_extraction_def)

text \<open>The calls of a submission, step by step.\<close>

lemma submit_claim_calls:
  "snd (snd (submit_claim env (Some user) b files store))
    = snd (create_folder env)
      @ snd (upload_documents env (fst (create_folder env)) files)
      @ snd (trigger_extraction env (fst (create_folder env))
               (fst (upload_documents env (fst (create_folder env)) files)))
      @ [CamundaStart (''CLM-'' @ decimal (claim_now_ms env) @ ''-''
                         @ toUpperCase (take 4 (uuid env)))]"
  by (simp add: submit_claim_def Let_def split_beta)

text \<open>The first id that Box gave belongs to the first file whose upload succeeded.\<close>

lemma first_uploaded:
  assumes "List.map_filter snd files = i # rest"
  shows "\<exists>pre f post. files = pre @ (f, Some i) # post \<and> list_all (\<lambda>p. snd p = None) pre"
  using assms
proof (induction files)
  case Nil
  then show ?case
    by (simp add: List.map_filter_simps)
next
  case (Cons p files)
  obtain f r where p: "p = (f, r)"
    by (cases p)
  show ?case
  proof (cases r)
    case None
    with Cons.prems p have "List.map_filter snd files = i # rest"
      by (simp add: List.map_filter_simps)
    from Cons.IH [OF this] obtain pre g post
      where "files = pre @ (g, Some i) # post" and "list_all (\<lambda>p. snd p = None) pre"
      by blast
    with None p have "p # files = (p # pre) @ (g, Some i) # post
        \<and> list_all (\<lambda>p. snd p = None) (p # pre)"
      by simp
    then show ?thesis
      by blast
  next
    case (Some j)
    with Cons.prems p have "j = i"
      by (simp add: List.map_filter_simps)
    with Some p have "p # files = [] @ (f, Some i) # files \<and> list_all (\<lambda>p. snd p = None) []"
      by simp
    then show ?thesis
      by blast
  qed
qed

lemma extract_call_member:
  assumes mem: "ExtractCall i t
        \<in> set (if c then (case xs of [] \<Rightarrow> [] | j # _ \<Rightarrow> [ExtractCall j ''insurance_claim''])
               else [])"
  shows "(\<exists>rest. xs = i # rest) \<and> t = ''insurance_claim''"
proof (cases c)
  case False
  with mem show ?thesis
    by simp
next
  case True
  with mem have m: "ExtractCall i t
      \<in> set (case xs of [] \<Rightarrow> [] | j # _ \<Rightarrow> [ExtractCall j ''insurance_claim''])"
    by simp
  show ?thesis
  proof (cases xs)
    case Nil
    with m show ?thesis
      by simp
  next
    case (Cons j rest)
    with m show ?thesis
      by simp
  qed
qed

text \<open>
  C3, as the code has it. A submission makes at most one call to the extraction gateway.
  The call is made when the Box client exists, the claim folder was created and at least
  one upload succeeded, and it is against the first file, in submission order, whose
  upload succeeded: the head of the uploaded documents, not of the submitted files.
\<close>

theorem extraction_call_first_uploaded:
  "length (filter is_extract_call (snd (snd (submit_claim env (Some user) b files store)))) \<le> 1
   \<and> (\<forall>i t. ExtractCall i t \<in> set (snd (snd (submit_claim env (Some user) b files store)))
         \<longrightarrow> t = ''insurance_claim''
             \<and> (\<exists>pre f post. files = pre @ (f, Some i) # post
                    \<and> list_all (\<lambda>p. snd p = None) pre))
   \<and> filter is_extract_call (snd (snd (submit_claim env (Some user) b files store)))
     = (if portal_boxClient env \<and> truthy (folders_create env) then
          (case List.map_filter snd files of
             [] \<Rightarrow> []
           | i # _ \<Rightarrow> [ExtractCall i ''insurance_claim''])
        else [])"
proof -
  let ?folder = "fst (create_folder env)"
  let ?calls = "snd (snd (submit_claim env (Some user) b files store))"
  have "filter is_extract_call ?calls
      = filter is_extract_call
          (snd (trigger_extraction env ?folder (fst (upload_documents env ?folder files))))"
    by (simp add: submit_claim_calls create_folder_calls upload_documents_calls)
  also have "\<dots> = (if portal_boxClient env \<and> truthy (folders_create env) then
          (case List.map_filter snd files of
             [] \<Rightarrow> []
           | i # _ \<Rightarrow> [ExtractCall i ''insurance_claim''])
        else [])"
    by (simp add: trigger_extraction_calls upload_documents_docs create_folder_id truthy_def
        split: list.split)
  finally have calls: "filter is_extract_call ?calls
      = (if portal_boxClient env \<and> truthy (folders_create env) then
          (case List.map_filter snd files of
             [] \<Rightarrow> []
           | i # _ \<Rightarrow> [ExtractCall i ''insurance_claim''])
        else [])" .
  then have most: "length (filter is_extract_call ?calls) \<le> 1"
    by (simp split: list.split)
  have first: "t = ''insurance_claim''
         \<and> (\<exists>pre f post. files = pre @ (f, Some i) # post \<and> list_all (\<lambda>p. snd p = None) pre)"
    if "ExtractCall i t \<in> set ?calls" for i t
  proof -
    from that have "ExtractCall i t \<in> set (filter is_extract_call ?calls)"
      by simp
    then have mem: "ExtractCall i t
        \<in> set (if portal_boxClient env \<and> truthy (folders_create env) then
                 (case List.map_filter snd files of
                    [] \<Rightarrow> []
                  | i # _ \<Rightarrow> [ExtractCall i ''insurance_claim''])
               else [])"
      unfolding calls .
    from extract_call_member [OF mem]
    have "(\<exists>rest. List.map_filter snd files = i # rest) \<and> t = ''insurance_claim''" .
    then obtain rest where "List.map_filter snd files = i # rest" and t: "t = ''insurance_claim''"
      by (elim conjE exE)
    from first_uploaded [OF this(1)] t show ?thesis
      by (intro conjI)
  qed
  have "\<forall>i t. ExtractCall i t \<in> set ?calls
         \<longrightarrow> t = ''insurance_claim''
             \<and> (\<exists>pre f post. files = pre @ (f, Some i) # post
                    \<and> list_all (\<lambda>p. snd p = None) pre)"
    by (intro allI impI) (rule first)
  with most calls show ?thesis
    by (intro conjI)
qed

theorem extraction_call_first_uploaded_witness:
  "ExtractCall ''111'' ''insurance_claim''
     \<in> set (snd (snd (submit_claim
          \<lparr>portal_boxClient = True, claim_now_ms = 7, uuid = ''9f3c2a'',
           folders_create = Some ''F9'', submit_now_iso = ''2026-01-01T00:00:00.000Z'',
           extract_fetch = Map.empty, camunda_start = Inl ''unreachable'', demo_now_ms = 8\<rparr>
          (Some \<lparr>user_id = ''USR001'', user_name = ''John Smith'',
                 user_policyNumber = ''POL-2024-001234''\<rparr>)
          \<lparr>body_claimType = Some ''Auto'', body_description = Some ''Rear-end collision'',
           body_incidentDate = Some ''2026-01-01'', body_estimatedAmount = Some ''1200''\<rparr>
          [(\<lparr>originalname = ''fnol.pdf'', file_size = 10, mimetype = ''application/pdf''\<rparr>,
            Some ''111''),
           (\<lparr>originalname = ''photo.png'', file_size = 20, mimetype = ''image/png''\<rparr>,
            Some ''222'')]
          Map.empty)))"
proof -
  let ?env = "\<lparr>portal_boxClient = True, claim_now_ms = 7, uuid = ''9f3c2a'',
           folders_create = Some ''F9'', submit_now_iso = ''2026-01-01T00:00:00.000Z'',
           extract_fetch = Map.empty, camunda_start = Inl ''unreachable'', demo_now_ms = 8\<rparr>"
  let ?files = "[(\<lparr>originalname = ''fnol.pdf'', file_size = 10, mimetype = ''application/pdf''\<rparr>,
            Some ''111''),
           (\<lparr>originalname = ''photo.png'', file_size = 20, mimetype = ''image/png''\<rparr>,
            Some ''222'')]"
  have "portal_boxClient ?env \<and> truthy (folders_create ?env)"
    by (simp add: truthy_def)
  moreover have "List.map_filter snd ?files = [''111'', ''222'']"
    by (simp add: List.map_filter_simps)
  ultimately have "filter is_extract_call (snd (snd (submit_claim ?env (Some user) b ?files store)))
      = [ExtractCall ''111'' ''insurance_claim'']" for user b store
    using extraction_call_first_uploaded [of ?env user b ?files store]
    by simp
  then have "ExtractCall ''111'' ''insurance_claim''
      \<in> set (filter is_extract_call (snd (snd (submit_claim ?env (Some user) b ?files store))))"
    for user b store
    by simp
  then show ?thesis
    by simp
qed

text \<open>
  The claim as stated fails when the first upload fails: of two submitted files, the
  upload of the first throws and the second is stored under the id \<^verbatim>\<open>222\<close>; the one
  extraction call is against \<^verbatim>\<open>222\<close>, the second file in submission order.
\<close>

theorem extraction_call_first_uploaded_counterexample:
  "filter is_extract_call (snd (snd (submit_claim
          \<lparr>portal_boxClient = True, claim_now_ms = 7, uuid = ''9f3c2a'',
           folders_create = Some ''F9'', submit_now_iso = ''2026-01-01T00:00:00.000Z'',
           extract_fetch = Map.empty, camunda_start = Inl ''unreachable'', demo_now_ms = 8\<rparr>
          (Some \<lparr>user_id = ''USR001'', user_name = ''John Smith'',
                 user_policyNumber = ''POL-2024-001234''\<rparr>)
          \<lparr>body_claimType = Some ''Auto'', body_description = Some ''Rear-end collision'',
           body_incidentDate = Some ''2026-01-01'', body_estimatedAmount = Some ''1200''\<rparr>
          [(\<lparr>originalname = ''fnol.pdf'', file_size = 10, mimetype = ''application/pdf''\<rparr>,
            None),
           (\<lparr>originalname = ''photo.png'', file_size = 20, mimetype = ''image/png''\<rparr>,
            Some ''222'')]
          Map.empty)))
     = [ExtractCall ''222'' ''insurance_claim'']
   \<and> upload_loop
        [(\<lparr>originalname = ''fnol.pdf'', file_size = 10, mimetype = ''application/pdf''\<rparr>,
          None),
         (\<lparr>originalname = ''photo.png'', file_size = 20, mimetype = ''image/png''\<rparr>,
          Some ''222'')]
     = [\<lparr>doc_id = ''222'', doc_name = ''photo.png'', doc_size = 20, doc_type = ''image/png''\<rparr>]"
  by (simp add: submit_claim_def create_folder_def upload_documents_def
      trigger_extraction_def start_workflow_def truthy_def template_def Let_def)







text \<open>The row a submission stores has the status of its one history entry.\<close>

lemma submitted_claim_agrees:
  assumes "fst (submit_claim env (Some user) b files store) = SubmitSuccess c k"
  shows "status c = ''Submitted'' \<and> status_agrees_with_history c"
  using assms
  by (auto simp add: submit_claim_def start_workflow_def Let_def split_beta
      status_agrees_with_history_def split: sum.splits)

section \<open>Properties of the admin routes\<close>

text \<open>
  What the two status routes do to an instance and its row. On a row that holds a
  history array the instance gets the new head entry and the row does not: the array
  handed to \<^verbatim>\<open>claim.update\<close> is the instance's own, so only the status is written.
\<close>

lemma unshift_then_update_array:
  assumes "statusHistory row = Some h"
  shows "(case unshift_entry e row of (inst, history) \<Rightarrow> claim_update inst s history row)
    = (row\<lparr>status := (case s of None \<Rightarrow> status row | Some x \<Rightarrow> x),
           statusHistory := Some (e # h)\<rparr>,
       row\<lparr>status := (case s of None \<Rightarrow> status row | Some x \<Rightarrow> x)\<rparr>)"
  using assms by (cases s) (simp_all add: unshift_entry_def claim_update_def Let_def)

text \<open>On a row that holds no array the fresh one-entry array is written as well.\<close>

lemma unshift_then_update_no_array:
  assumes "statusHistory row = None"
  shows "(case unshift_entry e row of (inst, history) \<Rightarrow> claim_update inst s history row)
    = (row\<lparr>status := (case s of None \<Rightarrow> status row | Some x \<Rightarrow> x),
           statusHistory := Some [e]\<rparr>,
       row\<lparr>status := (case s of None \<Rightarrow> status row | Some x \<Rightarrow> x),
           statusHistory := Some [e]\<rparr>)"
  using assms by (cases s) (simp_all add: unshift_entry_def claim_update_def Let_def)

text \<open>
  The status route on a claim that has a history array: the response carries an instance
  whose status and head entry agree, and the stored row has the new status under its old
  history.
\<close>

lemma update_claim_status_array:
  assumes "store k = Some row" and "statusHistory row = Some h" and "new_status b = Some s"
  shows "\<exists>inst. update_claim_status (Some adminUser) now k b store
            = (Success inst, store(k \<mapsto> row\<lparr>status := s\<rparr>))
          \<and> status inst = s \<and> status_agrees_with_history inst"
  using assms
  by (simp add: update_claim_status_def Let_def split_def unshift_then_update_array [simplified split_def]
      status_agrees_with_history_def)

text \<open>
  A row whose status and head entry agree stops doing so once its status alone is
  replaced by a different one.
\<close>

lemma stale_history_head:
  assumes "status_agrees_with_history row" and "s \<noteq> status row"
  shows "\<not> status_agrees_with_history (row\<lparr>status := s\<rparr>)"
  using assms
  by (auto simp add: status_agrees_with_history_def split: option.splits list.splits)

text \<open>The demo branch on a claim that is found, with variables in the body.\<close>

lemma complete_task_demo_array:
  assumes "findByPk store (claimId tb) = Some row" and "variables tb = Some v"
    and "statusHistory row = Some h"
  shows "complete_task_demo adminUser now taskId tb store
    = (Success (DemoCompleted taskId),
       store(template (claimId tb) \<mapsto> row\<lparr>status := demo_status (status row) (decision_of v)\<rparr>))"
  using assms
  by (simp add: complete_task_demo_def Let_def split_def
      unshift_then_update_array [simplified split_def])

lemma complete_task_demo_no_array:
  assumes "findByPk store (claimId tb) = Some row" and "variables tb = Some v"
    and "statusHistory row = None"
  shows "complete_task_demo adminUser now taskId tb store
    = (Success (DemoCompleted taskId),
       store(template (claimId tb) \<mapsto>
         row\<lparr>status := demo_status (status row) (decision_of v),
             statusHistory :=
               Some [\<lparr>entry_status = Some (demo_status (status row) (decision_of v)),
                      entry_date = now,
                      entry_note = ''Task completed with decision: '' @ template (decision_of v),
                      entry_updatedBy = js_or (admin_name adminUser) (Some ''System'')\<rparr>]\<rparr>))"
  using assms
  by (simp add: complete_task_demo_def Let_def split_def
      unshift_then_update_no_array [simplified split_def])

lemma complete_task_demo_row:
  assumes "findByPk store (claimId tb) = Some row" and "variables tb = Some v"
  shows "\<exists>row'. complete_task_demo adminUser now taskId tb store
            = (Success (DemoCompleted taskId), store(template (claimId tb) \<mapsto> row'))
          \<and> status row' = demo_status (status row) (decision_of v)
          \<and> (\<forall>h. statusHistory row = Some h \<longrightarrow> statusHistory row' = Some h)"
proof (cases "statusHistory row")
  case None
  show ?thesis
    unfolding complete_task_demo_no_array [OF assms None]
    by (intro exI conjI, rule refl) (simp_all add: None)
next
  case (Some h)
  show ?thesis
    unfolding complete_task_demo_array [OF assms Some]
    by (intro exI conjI, rule refl) (simp_all add: Some)
qed

text \<open>The demo branch without a claim or without variables: nothing is written.\<close>

lemma complete_task_demo_idle:
  assumes "findByPk store (claimId tb) = None \<or> variables tb = None"
  shows "complete_task_demo adminUser now taskId tb store = (Success (DemoCompleted taskId), store)"
  using assms by (auto simp add: complete_task_demo_def split: option.split)

lemma findByPk_after_update:
  assumes "findByPk store k = Some c"
  shows "findByPk (store(template k \<mapsto> c')) k = Some c'"
  using assms by (cases k) (simp_all add: findByPk_def template_def)


text \<open>The chain of comparisons, value by value.\<close>

lemma demo_status_table:
  "demo_status current (Some ''approve'') = ''Approved''"
  "demo_status current (Some ''approved'') = ''Approved''"
  "demo_status current (Some ''CLEARED'') = ''Approved''"
  "demo_status current (Some ''deny'') = ''Denied''"
  "demo_status current (Some ''FRAUD_CONFIRMED'') = ''Denied''"
  "demo_status current (Some ''escalate'') = ''Escalated''"
  "demo_status current (Some ''request_more_docs'') = ''Pending Documents''"
  by (simp_all add: demo_status_def)

lemma demo_status_unrecognized:
  assumes "decision \<notin> {Some ''approve'', Some ''approved'', Some ''CLEARED'', Some ''deny'',
                       Some ''FRAUD_CONFIRMED'', Some ''escalate'', Some ''request_more_docs''}"
  shows "demo_status current decision = current"
  using assms by (simp add: demo_status_def)

text \<open>
  C8. In the demo-mode fallback of the task-completion route the response reports
  success whatever the body holds. When the claim is found and the body has variables,
  the decision is the first truthy of the body's \<^verbatim>\<open>adjusterDecision\<close>,
  \<^verbatim>\<open>reviewDecision\<close>, \<^verbatim>\<open>managerDecision\<close> and \<^verbatim>\<open>investigationOutcome\<close> values (the
  last of them when none is truthy), and the stored claim's new status follows from it by
  equality with the seven known values; any other decision leaves the status as it was.
  Without the claim or without variables the table is left as it was.
\<close>

theorem demo_decision_mapping:
  assumes "complete_task (Some adminUser) (Inl message) now taskId tb store = (resp, store')"
  shows "resp = Success (DemoCompleted taskId)
    \<and> (\<forall>row v d. findByPk store (claimId tb) = Some row \<and> variables tb = Some v
           \<and> d = js_or (js_or (js_or (adjusterDecision v) (reviewDecision v))
                          (managerDecision v)) (investigationOutcome v)
         \<longrightarrow> (\<exists>row'. findByPk store' (claimId tb) = Some row'
               \<and> (d \<in> {Some ''approve'', Some ''approved'', Some ''CLEARED''}
                    \<longrightarrow> status row' = ''Approved'')
               \<and> (d \<in> {Some ''deny'', Some ''FRAUD_CONFIRMED''}
                    \<longrightarrow> status row' = ''Denied'')
               \<and> (d = Some ''escalate'' \<longrightarrow> status row' = ''Escalated'')
               \<and> (d = Some ''request_more_docs'' \<longrightarrow> status row' = ''Pending Documents'')
               \<and> (d \<notin> {Some ''approve'', Some ''approved'', Some ''CLEARED'',
                       Some ''deny'', Some ''FRAUD_CONFIRMED'', Some ''escalate'',
                       Some ''request_more_docs''}
                    \<longrightarrow> status row' = status row)))
    \<and> (findByPk store (claimId tb) = None \<or> variables tb = None \<longrightarrow> store' = store)"
proof -
  from assms have run: "complete_task_demo adminUser now taskId tb store = (resp, store')"
    by (simp add: complete_task_def)
  have resp: "resp = Success (DemoCompleted taskId)"
    using run by (auto simp add: complete_task_demo_def Let_def split_def split: option.splits)
  have idle: "store' = store" if "findByPk store (claimId tb) = None \<or> variables tb = None"
    using run complete_task_demo_idle [OF that] by simp
  have written: "\<exists>row'. findByPk store' (claimId tb) = Some row'
               \<and> (d \<in> {Some ''approve'', Some ''approved'', Some ''CLEARED''}
                    \<longrightarrow> status row' = ''Approved'')
               \<and> (d \<in> {Some ''deny'', Some ''FRAUD_CONFIRMED''}
                    \<longrightarrow> status row' = ''Denied'')
               \<and> (d = Some ''escalate'' \<longrightarrow> status row' = ''Escalated'')
               \<and> (d = Some ''request_more_docs'' \<longrightarrow> status row' = ''Pending Documents'')
               \<and> (d \<notin> {Some ''approve'', Some ''approved'', Some ''CLEARED'',
                       Some ''deny'', Some ''FRAUD_CONFIRMED'', Some ''escalate'',
                       Some ''request_more_docs''}
                    \<longrightarrow> status row' = status row)"
    if a: "findByPk store (claimId tb) = Some row \<and> variables tb = Some v
           \<and> d = js_or (js_or (js_or (adjusterDecision v) (reviewDecision v))
                          (managerDecision v)) (investigationOutcome v)"
    for row v d
  proof -
    from a have found: "findByPk store (claimId tb) = Some row" and vars: "variables tb = Some v"
      and d: "decision_of v = d"
      by (simp_all add: decision_of_def)
    from complete_task_demo_row [OF found vars, of adminUser now taskId] obtain row'
      where demo: "complete_task_demo adminUser now taskId tb store
            = (Success (DemoCompleted taskId), store(template (claimId tb) \<mapsto> row'))"
        and status: "status row' = demo_status (status row) d"
      unfolding d by (elim exE conjE)
    from run demo have "store' = store(template (claimId tb) \<mapsto> row')"
      by simp
    with found have stored: "findByPk store' (claimId tb) = Some row'"
      by (simp add: findByPk_after_update)
    show ?thesis
      apply (rule exI [of _ row'])
      apply (simp only: stored status simp_thms)
      apply (intro conjI impI)
          apply (elim insertE emptyE; simp only: demo_status_table)
         apply (elim insertE emptyE; simp only: demo_status_table)
        apply (simp only: demo_status_table)
       apply (simp only: demo_status_table)
      apply (erule demo_status_unrecognized)
      done
  qed
  then have "\<forall>row v d. findByPk store (claimId tb) = Some row \<and> variables tb = Some v
           \<and> d = js_or (js_or (js_or (adjusterDecision v) (reviewDecision v))
                          (managerDecision v)) (investigationOutcome v)
         \<longrightarrow> (\<exists>row'. findByPk store' (claimId tb) = Some row'
               \<and> (d \<in> {Some ''approve'', Some ''approved'', Some ''CLEARED''}
                    \<longrightarrow> status row' = ''Approved'')
               \<and> (d \<in> {Some ''deny'', Some ''FRAUD_CONFIRMED''}
                    \<longrightarrow> status row' = ''Denied'')
               \<and> (d = Some ''escalate'' \<longrightarrow> status row' = ''Escalated'')
               \<and> (d = Some ''request_more_docs'' \<longrightarrow> status row' = ''Pending Documents'')
               \<and> (d \<notin> {Some ''approve'', Some ''approved'', Some ''CLEARED'',
                       Some ''deny'', Some ''FRAUD_CONFIRMED'', Some ''escalate'',
                       Some ''request_more_docs''}
                    \<longrightarrow> status row' = status row))"
    by (intro allI impI)
  moreover from idle
  have "findByPk store (claimId tb) = None \<or> variables tb = None \<longrightarrow> store' = store"
    by (intro impI)
  ultimately show ?thesis
    using resp by (intro conjI)
qed

theorem demo_decision_mapping_witness:
  "(\<exists>row'. findByPk (snd (complete_task
        (Some \<lparr>admin_id = Some ''ADM002'', admin_name = Some ''Sarah Mitchell'',
               admin_email = Some ''adjuster@suresafe.com'', admin_role = ''adjuster''\<rparr>)
        (Inl ''unreachable'') ''2026-01-02T00:00:00.000Z'' ''task-1''
        \<lparr>variables = Some \<lparr>adjusterDecision = None, reviewDecision = Some [],
                             managerDecision = Some ''deny'',
                             investigationOutcome = Some ''CLEARED''\<rparr>,
         claimId = Some ''CLM-1''\<rparr>
        (Map.empty(''CLM-1'' \<mapsto>
           \<lparr>claim_id = ''CLM-1'', userId = ''USR001'', userName = ''John Smith'',
            policyNumber = ''POL-2024-001234'', claimType = Some ''Auto'',
            description = Some ''Rear-end collision'', incidentDate = Some ''2026-01-01'',
            estimatedAmount = Some ''1200'', status = ''Under Review'', statusHistory = None,
            boxFolderId = None, documents = [], aiExtraction = None,
            processInstanceKey = None, workflowStatus = ''NOT_STARTED''\<rparr>))))
        (Some ''CLM-1'') = Some row'
      \<and> status row' = ''Denied'')
   \<and> (\<exists>row'. findByPk (snd (complete_task
        (Some \<lparr>admin_id = Some ''ADM002'', admin_name = Some ''Sarah Mitchell'',
               admin_email = Some ''adjuster@suresafe.com'', admin_role = ''adjuster''\<rparr>)
        (Inl ''unreachable'') ''2026-01-02T00:00:00.000Z'' ''task-1''
        \<lparr>variables = Some \<lparr>adjusterDecision = Some ''maybe later'', reviewDecision = None,
                             managerDecision = None, investigationOutcome = None\<rparr>,
         claimId = Some ''CLM-1''\<rparr>
        (Map.empty(''CLM-1'' \<mapsto>
           \<lparr>claim_id = ''CLM-1'', userId = ''USR001'', userName = ''John Smith'',
            policyNumber = ''POL-2024-001234'', claimType = Some ''Auto'',
            description = Some ''Rear-end collision'', incidentDate = Some ''2026-01-01'',
            estimatedAmount = Some ''1200'', status = ''Under Review'', statusHistory = None,
            boxFolderId = None, documents = [], aiExtraction = None,
            processInstanceKey = None, workflowStatus = ''NOT_STARTED''\<rparr>))))
        (Some ''CLM-1'') = Some row'
      \<and> status row' = ''Under Review'')
   \<and> fst (complete_task
        (Some \<lparr>admin_id = Some ''ADM002'', admin_name = Some ''Sarah Mitchell'',
               admin_email = Some ''adjuster@suresafe.com'', admin_role = ''adjuster''\<rparr>)
        (Inl ''unreachable'') ''2026-01-02T00:00:00.000Z'' ''task-1''
        \<lparr>variables = Some \<lparr>adjusterDecision = Some ''maybe later'', reviewDecision = None,
                             managerDecision = None, investigationOutcome = None\<rparr>,
         claimId = Some ''CLM-1''\<rparr>
        (Map.empty(''CLM-1'' \<mapsto>
           \<lparr>claim_id = ''CLM-1'', userId = ''USR001'', userName = ''John Smith'',
            policyNumber = ''POL-2024-001234'', claimType = Some ''Auto'',
            description = Some ''Rear-end collision'', incidentDate = Some ''2026-01-01'',
            estimatedAmount = Some ''1200'', status = ''Under Review'', statusHistory = None,
            boxFolderId = None, documents = [], aiExtraction = None,
            processInstanceKey = None, workflowStatus = ''NOT_STARTED''\<rparr>)))
     = Success (DemoCompleted ''task-1'')"
proof -
  let ?adm = "\<lparr>admin_id = Some ''ADM002'', admin_name = Some ''Sarah Mitchell'',
               admin_email = Some ''adjuster@suresafe.com'', admin_role = ''adjuster''\<rparr>"
  let ?row = "\<lparr>claim_id = ''CLM-1'', userId = ''USR001'', userName = ''John Smith'',
            policyNumber = ''POL-2024-001234'', claimType = Some ''Auto'',
            description = Some ''Rear-end collision'', incidentDate = Some ''2026-01-01'',
            estimatedAmount = Some ''1200'', status = ''Under Review'', statusHistory = None,
            boxFolderId = None, documents = [], aiExtraction = None,
            processInstanceKey = None, workflowStatus = ''NOT_STARTED''\<rparr>"
  let ?store = "Map.empty(''CLM-1'' \<mapsto> ?row)"
  let ?deny = "\<lparr>adjusterDecision = None, reviewDecision = Some [],
                 managerDecision = Some ''deny'', investigationOutcome = Some ''CLEARED''\<rparr>"
  let ?other = "\<lparr>adjusterDecision = Some ''maybe later'', reviewDecision = None,
                  managerDecision = None, investigationOutcome = None\<rparr>"
  let ?tb1 = "\<lparr>variables = Some ?deny, claimId = Some ''CLM-1''\<rparr>"
  let ?tb2 = "\<lparr>variables = Some ?other, claimId = Some ''CLM-1''\<rparr>"
  let ?now = "''2026-01-02T00:00:00.000Z''"
  let ?run1 = "complete_task (Some ?adm) (Inl ''unreachable'') ?now ''task-1'' ?tb1 ?store"
  let ?run2 = "complete_task (Some ?adm) (Inl ''unreachable'') ?now ''task-1'' ?tb2 ?store"
  have run1: "?run1 = (fst ?run1, snd ?run1)" and run2: "?run2 = (fst ?run2, snd ?run2)"
    by simp_all
  have d1: "js_or (js_or (js_or (adjusterDecision ?deny) (reviewDecision ?deny))
                (managerDecision ?deny)) (investigationOutcome ?deny) = Some ''deny''"
    by (simp add: js_or_def truthy_def)
  have d2: "js_or (js_or (js_or (adjusterDecision ?other) (reviewDecision ?other))
                (managerDecision ?other)) (investigationOutcome ?other) = Some ''maybe later''"
    by (simp add: js_or_def truthy_def)
  have found1: "findByPk ?store (claimId ?tb1) = Some ?row \<and> variables ?tb1 = Some ?deny
      \<and> Some ''deny'' = js_or (js_or (js_or (adjusterDecision ?deny) (reviewDecision ?deny))
                (managerDecision ?deny)) (investigationOutcome ?deny)"
    unfolding d1 by (simp add: findByPk_def)
  have found2: "findByPk ?store (claimId ?tb2) = Some ?row \<and> variables ?tb2 = Some ?other
      \<and> Some ''maybe later''
          = js_or (js_or (js_or (adjusterDecision ?other) (reviewDecision ?other))
                (managerDecision ?other)) (investigationOutcome ?other)"
    unfolding d2 by (simp add: findByPk_def)
  note m1 = demo_decision_mapping [OF run1]
  note m2 = demo_decision_mapping [OF run2]
  from m1 [THEN conjunct2, THEN conjunct1, rule_format, OF found1] obtain r1
    where s1: "findByPk (snd ?run1) (claimId ?tb1) = Some r1"
      and denied: "Some ''deny'' \<in> {Some ''deny'', Some ''FRAUD_CONFIRMED''}
                    \<longrightarrow> status r1 = ''Denied''"
    by (elim exE conjE)
  from denied have "status r1 = ''Denied''"
    by simp
  with s1 have first: "\<exists>row'. findByPk (snd ?run1) (Some ''CLM-1'') = Some row'
      \<and> status row' = ''Denied''"
    by (intro exI [of _ r1]) simp
  from m2 [THEN conjunct2, THEN conjunct1, rule_format, OF found2] obtain r2
    where s2: "findByPk (snd ?run2) (claimId ?tb2) = Some r2"
      and unchanged: "Some ''maybe later'' \<notin> {Some ''approve'', Some ''approved'',
                       Some ''CLEARED'', Some ''deny'', Some ''FRAUD_CONFIRMED'',
                       Some ''escalate'', Some ''request_more_docs''}
                    \<longrightarrow> status r2 = status ?row"
    by (elim exE conjE)
  from unchanged have "status r2 = ''Under Review''"
    by simp
  with s2 have second: "\<exists>row'. findByPk (snd ?run2) (Some ''CLM-1'') = Some row'
      \<and> status row' = ''Under Review''"
    by (intro exI [of _ r2]) simp
  from m2 have third: "fst ?run2 = Success (DemoCompleted ''task-1'')"
    by (rule conjunct1)
  from first second third show ?thesis
    by (intro conjI)
qed

text \<open>
  The route on the seven known decisions and on one it does not know, each given as the
  adjuster's decision for a claim under review.
\<close>

lemma demo_decision_examples:
  "map (\<lambda>decision.
      map_option status
        (findByPk (snd (complete_task
            (Some \<lparr>admin_id = None, admin_name = None, admin_email = None,
                   admin_role = ''adjuster''\<rparr>)
            (Inl ''unreachable'') ''2026-01-02T00:00:00.000Z'' ''task-1''
            \<lparr>variables = Some \<lparr>adjusterDecision = Some decision, reviewDecision = None,
                                 managerDecision = None, investigationOutcome = None\<rparr>,
             claimId = Some ''CLM-1''\<rparr>
            (Map.empty(''CLM-1'' \<mapsto>
               \<lparr>claim_id = ''CLM-1'', userId = ''USR001'', userName = ''John Smith'',
                policyNumber = ''POL-2024-001234'', claimType = None, description = None,
                incidentDate = None, estimatedAmount = None, status = ''Under Review'',
                statusHistory = None, boxFolderId = None, documents = [],
                aiExtraction = None, processInstanceKey = None,
                workflowStatus = ''NOT_STARTED''\<rparr>))))
          (Some ''CLM-1'')))
     [''approve'', ''approved'', ''CLEARED'', ''deny'', ''FRAUD_CONFIRMED'', ''escalate'',
      ''request_more_docs'', ''Approve'']
   = [Some ''Approved'', Some ''Approved'', Some ''Approved'', Some ''Denied'', Some ''Denied'',
      Some ''Escalated'', Some ''Pending Documents'', Some ''Under Review'']"
  by (simp add: complete_task_def complete_task_demo_def findByPk_def unshift_entry_def
      claim_update_def decision_of_def demo_status_def js_or_def truthy_def template_def
      Let_def)

text \<open>A status update whose body has no \<^verbatim>\<open>status\<close> leaves a row with a history as it was.\<close>

lemma update_claim_status_no_status:
  assumes "store k = Some row" and "statusHistory row = Some h" and "new_status b = None"
  shows "snd (update_claim_status (Some adminUser) now k b store) = store"
proof -
  from assms(1) have "store(k \<mapsto> row) = store"
    by (rule map_upd_triv)
  with assms show ?thesis
    by (simp add: update_claim_status_def Let_def split_def
        unshift_then_update_array [simplified split_def])
qed

text \<open>The login route never finds \<^verbatim>\<open>undefined\<close>: the default admin is an own entry.\<close>

lemma lookup_admin_defined: "lookup_admin e \<noteq> Undefined"
proof -
  have "js_get adminUsers ''admin@suresafe.com'' \<noteq> Undefined"
    by (simp add: js_get_def adminUsers_def)
  then show ?thesis
    by (simp add: lookup_admin_def split: js_prop.split)
qed

text \<open>The password \<^verbatim>\<open>admin123\<close> logs in, whatever the email.\<close>

lemma admin_login_admin123:
  assumes "password b = Some ''admin123''"
  shows "admin_login b = LoginSuccess (session_of (lookup_admin (email b)) (role b))"
  using assms by (simp add: admin_login_def Let_def lookup_admin_defined)

text \<open>
  The route answers 401 exactly when the password is neither \<^verbatim>\<open>admin123\<close> nor the
  password of the looked-up value.
\<close>

lemma admin_login_rejects_iff:
  "admin_login b = InvalidCredentials
    \<longleftrightarrow> password b \<noteq> Some ''admin123''
        \<and> stored_password (lookup_admin (email b)) \<noteq> password b"
  by (simp add: admin_login_def Let_def lookup_admin_defined)

text \<open>
  An email that is neither a key of the table nor the name of an inherited property is
  replaced by the default admin.
\<close>

lemma lookup_admin_default:
  assumes "template e \<notin> set (map fst adminUsers)" and "template e \<notin> set OBJECT_PROTOTYPE_KEYS"
  shows "lookup_admin e
    = Own (AdminUser ''ADM001'' ''Admin User'' ''admin@suresafe.com'' ''admin123'')"
proof -
  from assms(1) have "map_of adminUsers (template e) = None"
    by (simp add: map_of_eq_None_iff)
  with assms(2) have "js_get adminUsers (template e) = Undefined"
    by (simp add: js_get_def)
  moreover have "js_get adminUsers ''admin@suresafe.com''
      = Own (AdminUser ''ADM001'' ''Admin User'' ''admin@suresafe.com'' ''admin123'')"
    by (simp add: js_get_def adminUsers_def)
  ultimately show ?thesis
    by (simp add: lookup_admin_def)
qed

text \<open>
  C9. The claim: the password \<^verbatim>\<open>admin123\<close> logs in for any email, an email that is not
  in the table is replaced by the default admin, and 401 is answered only when the
  password matches neither \<^verbatim>\<open>admin123\<close> nor the stored password. The replacement fails
  on the code for an email that names a property every object literal inherits:
  \<^verbatim>\<open>constructor\<close> is not in the table, the lookup yields the inherited function, which
  is truthy, so the default admin is not substituted and the session holds an admin
  with no id, name or email. Such a value has no password either, so the same email
  logs in with no password at all. An unknown email of any other kind gets the default
  admin.
\<close>

theorem admin_login_constructor_email:
  "''constructor'' \<notin> set (map fst adminUsers)
   \<and> admin_login \<lparr>email = Some ''constructor'', password = Some ''admin123'', role = None\<rparr>
      = LoginSuccess \<lparr>admin_id = None, admin_name = None, admin_email = None,
                      admin_role = ''adjuster''\<rparr>
   \<and> admin_login \<lparr>email = Some ''constructor'', password = None, role = None\<rparr>
      = LoginSuccess \<lparr>admin_id = None, admin_name = None, admin_email = None,
                      admin_role = ''adjuster''\<rparr>
   \<and> admin_login \<lparr>email = Some ''nobody@example.com'', password = Some ''admin123'',
                   role = None\<rparr>
      = LoginSuccess \<lparr>admin_id = Some ''ADM001'', admin_name = Some ''Admin User'',
                      admin_email = Some ''admin@suresafe.com'', admin_role = ''adjuster''\<rparr>"
  by (simp add: admin_login_def lookup_admin_def js_get_def adminUsers_def
      OBJECT_PROTOTYPE_KEYS_def stored_password_def session_of_def template_def js_or_def
      truthy_def Let_def)


end
